theory Spec2Isabelle
  imports Main "HOL-Library.Product_Lexorder"
begin

section \<open>Exceptions\<close>

text \<open>
  The exceptions the script can raise. The three checks of the target validation raise
  \<open>FileNotFoundError\<close>, \<open>FileExistsError\<close> and \<open>TypeError\<close>; unpacking an empty
  sorted list (\<open>best_quality_stream, *_ = sorted(...)\<close>) raises \<open>ValueError\<close>, as does
  \<open>int()\<close> on a malformed string; \<open>subprocess.run(..., check=True)\<close> raises
  \<open>CalledProcessError\<close> with the exit status; \<open>OSError\<close> stands for a failed rename and
  \<open>PytubeError\<close> for whatever the video library raises.
\<close>

datatype error =
    FileNotFoundError
  | FileExistsError
  | TypeError
  | ValueError
  | CalledProcessError int
  | OSError
  | PytubeError

section \<open>pathlib paths (POSIX flavour)\<close>

text \<open>
  A path is its root (\<open>''''\<close>, \<open>''/''\<close> or \<open>''//''\<close>) and its components, as
  \<open>pathlib\<close> keeps them after parsing.
\<close>

datatype Path = Path (root: string) (parts: "string list")

fun split_on :: "char \<Rightarrow> string \<Rightarrow> string list" where
  "split_on c [] = [[]]"
| "split_on c (x # xs) =
     (if x = c then [] # split_on c xs
      else (case split_on c xs of [] \<Rightarrow> [[x]] | w # ws \<Rightarrow> (x # w) # ws))"

definition splitroot :: "string \<Rightarrow> string \<times> string" where
  "splitroot p =
     (if take 1 p \<noteq> ''/'' then ('''', p)
      else if take 1 (drop 1 p) \<noteq> ''/'' \<or> take 1 (drop 2 p) = ''/'' then (''/'', drop 1 p)
      else (''//'', drop 2 p))"

definition path_of :: "string \<Rightarrow> Path" where
  "path_of s =
     (let (r, rel) = splitroot s
      in Path r (filter (\<lambda>x. x \<noteq> [] \<and> x \<noteq> ''.'') (split_on CHR ''/'' rel)))"

definition path_parent :: "Path \<Rightarrow> Path" where
  "path_parent p = (if parts p = [] then p else Path (root p) (butlast (parts p)))"

definition path_name :: "Path \<Rightarrow> string" where
  "path_name p = (if parts p = [] then [] else last (parts p))"

fun rfind_from :: "char \<Rightarrow> string \<Rightarrow> int \<Rightarrow> int" where
  "rfind_from c [] i = - 1"
| "rfind_from c (x # xs) i =
     (let r = rfind_from c xs (i + 1)
      in if r \<noteq> - 1 then r else if x = c then i else - 1)"

definition rfind :: "char \<Rightarrow> string \<Rightarrow> int" where
  "rfind c s = rfind_from c s 0"

definition path_suffix :: "Path \<Rightarrow> string" where
  "path_suffix p =
     (let n = path_name p; i = rfind CHR ''.'' n
      in if 0 < i \<and> i < int (length n) - 1 then drop (nat i) n else [])"

fun join_with :: "string \<Rightarrow> string list \<Rightarrow> string" where
  "join_with sep [] = []"
| "join_with sep [x] = x"
| "join_with sep (x # y # ys) = x @ sep @ join_with sep (y # ys)"

definition path_str :: "Path \<Rightarrow> string" where
  "path_str p =
     (if root p = [] \<and> parts p = [] then ''.'' else root p @ join_with ''/'' (parts p))"

text \<open>\<open>p / key\<close>: an absolute \<open>key\<close> replaces \<open>p\<close>, a relative one is appended.\<close>

definition truediv :: "Path \<Rightarrow> string \<Rightarrow> Path" where
  "truediv p key =
     (let q = path_of key
      in if root q \<noteq> [] then q else Path (root p) (parts p @ parts q))"

section \<open>The clock and \<open>strftime('%Y%m%d_%H%M%S')\<close>\<close>

record datetime =
  year :: nat
  month :: nat
  day :: nat
  hour :: nat
  minute :: nat
  second :: nat
  microsecond :: nat

definition digit_char :: "nat \<Rightarrow> char" where
  "digit_char d = ''0123456789'' ! d"

fun digits :: "nat \<Rightarrow> string" where
  "digits n = (if n < 10 then [digit_char n] else digits (n div 10) @ [digit_char (n mod 10)])"

declare digits.simps [simp del]

definition zero_pad :: "nat \<Rightarrow> nat \<Rightarrow> string" where
  "zero_pad w n = replicate (w - length (digits n)) CHR ''0'' @ digits n"

definition strftime :: "datetime \<Rightarrow> string" where
  "strftime d =
     zero_pad 4 (year d) @ zero_pad 2 (month d) @ zero_pad 2 (day d) @ ''_'' @
     zero_pad 2 (hour d) @ zero_pad 2 (minute d) @ zero_pad 2 (second d)"

section \<open>\<open>int()\<close> of a string\<close>

text \<open>
  Python's \<open>int(s)\<close> in base ten, on ASCII text: surrounding whitespace is stripped, one
  sign is allowed, and single underscores may separate digits. Anything else raises
  \<open>ValueError\<close>, here \<open>None\<close>. Digits outside ASCII and the interpreter's limit on the
  number of digits are not modelled.
\<close>

definition is_space :: "char \<Rightarrow> bool" where
  "is_space c =
     (c \<in> set [CHR 0x09, CHR 0x0A, CHR 0x0B, CHR 0x0C, CHR 0x0D,
               CHR 0x1C, CHR 0x1D, CHR 0x1E, CHR 0x1F, CHR 0x20])"

definition strip :: "string \<Rightarrow> string" where
  "strip s = rev (dropWhile is_space (rev (dropWhile is_space s)))"

definition digit_val :: "char \<Rightarrow> int option" where
  "digit_val c = map_of (zip ''0123456789'' [0, 1, 2, 3, 4, 5, 6, 7, 8, 9]) c"

fun parse_digits :: "int \<Rightarrow> string \<Rightarrow> int option" where
  "parse_digits acc [] = Some acc"
| "parse_digits acc [c] =
     (case digit_val c of None \<Rightarrow> None | Some v \<Rightarrow> Some (10 * acc + v))"
| "parse_digits acc (c # d # ds) =
     (if c = CHR ''_'' then
        (case digit_val d of None \<Rightarrow> None | Some v \<Rightarrow> parse_digits (10 * acc + v) ds)
      else
        (case digit_val c of None \<Rightarrow> None | Some v \<Rightarrow> parse_digits (10 * acc + v) (d # ds)))"

definition parse_unsigned :: "string \<Rightarrow> int option" where
  "parse_unsigned s =
     (case s of
        [] \<Rightarrow> None
      | c # cs \<Rightarrow> (case digit_val c of None \<Rightarrow> None | Some v \<Rightarrow> parse_digits v cs))"

definition py_int :: "string \<Rightarrow> int option" where
  "py_int s =
     (case strip s of
        [] \<Rightarrow> None
      | c # cs \<Rightarrow>
          if c = CHR ''-'' then map_option uminus (parse_unsigned cs)
          else if c = CHR ''+'' then parse_unsigned cs
          else parse_unsigned (c # cs))"

section \<open>Stream descriptors and the choice of the best one\<close>

text \<open>
  The fields of a \<open>pytube\<close> stream the script reads. \<open>resolution\<close> is a string such as
  \<open>''1080p''\<close>, or \<open>None\<close> for a format the library has no profile of.
\<close>

record Stream =
  itag :: int
  mime_type :: string
  is_adaptive :: bool
  video_codec :: "string option"
  audio_codec :: "string option"
  resolution :: "string option"
  fps :: int
  bitrate :: int

definition check_if_dash_stream :: "Stream \<Rightarrow> bool" where
  "check_if_dash_stream stream =
     (if mime_type stream \<noteq> ''video/webm'' then False
      else if \<not> is_adaptive stream then False
      else if video_codec stream \<notin> {Some ''vp9'', Some ''vp9.2''} then False
      else True)"

text \<open>\<open>int(stream.resolution[:-1]), stream.fps\<close>\<close>

definition sort_criteria :: "Stream \<Rightarrow> error + (int \<times> int)" where
  "sort_criteria stream =
     (case resolution stream of
        None \<Rightarrow> Inl TypeError
      | Some r \<Rightarrow>
          (case py_int (butlast r) of
             None \<Rightarrow> Inl ValueError
           | Some res \<Rightarrow> Inr (res, fps stream)))"

text \<open>\<open>streams.filter(mime_type="audio/webm", audio_codec="opus", adaptive=True)\<close>\<close>

definition audio_filter :: "Stream \<Rightarrow> bool" where
  "audio_filter stream =
     (mime_type stream = ''audio/webm'' \<and> audio_codec stream = Some ''opus'' \<and>
      is_adaptive stream)"

definition bitrate_key :: "Stream \<Rightarrow> error + int" where
  "bitrate_key stream = Inr (bitrate stream)"

text \<open>
  \<open>sorted(xs, key=key, reverse=True)\<close>: the keys are computed first, one per element and in
  order, so the first key that raises aborts the call; the list is then reversed, sorted
  stably in ascending order of the keys, and reversed again. Tuples compare
  lexicographically.
\<close>

fun keyed :: "('a \<Rightarrow> error + 'k) \<Rightarrow> 'a list \<Rightarrow> error + ('k \<times> 'a) list" where
  "keyed key [] = Inr []"
| "keyed key (x # xs) =
     (case key x of
        Inl e \<Rightarrow> Inl e
      | Inr k \<Rightarrow> (case keyed key xs of Inl e \<Rightarrow> Inl e | Inr ks \<Rightarrow> Inr ((k, x) # ks)))"

definition sorted_reverse :: "('a \<Rightarrow> error + 'k::linorder) \<Rightarrow> 'a list \<Rightarrow> error + 'a list" where
  "sorted_reverse key xs =
     (case keyed key xs of
        Inl e \<Rightarrow> Inl e
      | Inr ks \<Rightarrow> Inr (map snd (rev (sort_key fst (rev ks)))))"

text \<open>\<open>best_quality_stream, *_ = sorted(...)\<close>\<close>

definition best_of :: "('a \<Rightarrow> error + 'k::linorder) \<Rightarrow> 'a list \<Rightarrow> error + 'a" where
  "best_of key xs =
     (case sorted_reverse key xs of
        Inl e \<Rightarrow> Inl e
      | Inr [] \<Rightarrow> Inl ValueError
      | Inr (best # _) \<Rightarrow> Inr best)"

section \<open>The world the script runs in\<close>

text \<open>
  The script acts on the file system, reads the clock, talks to the video library and
  starts \<open>ffmpeg\<close>. The state threaded through the model is the set of paths that exist,
  the number of clock readings made so far, and the list of the actions performed, oldest
  first. The \<open>Call\<close> entries record the entry into a public method with its target.
\<close>

datatype operation = SaveVideoAs | SaveAudioAs | SaveAs

datatype event =
    Call operation Path
  | Init string
  | Stat Path
  | FetchStreams
  | Download Stream Path
  | Rename Path Path
  | Unlink Path
  | Run string
  | Print string

record world =
  files :: "Path set"
  ticks :: nat
  trace :: "event list"

text \<open>
  What lies outside the script is a parameter: the location of the script file
  (\<open>__file__\<close>), the successive readings of the clock, the library's answer for a
  hyperlink, the outcome of each download (a failed download may leave a partial file),
  whether the operating system refuses a rename, and the external process, which maps a
  command line and the existing files to an exit status and the files existing afterwards.

  Three simplifications are made. A file is identified with its \<open>pathlib\<close> value, so two
  spellings of one file are two files. \<open>exists\<close> and \<open>unlink\<close> never fail for a reason
  of the operating system, and a download writes no file but the one it is given. The
  process is taken to start: the only failure of \<open>subprocess.run\<close> is a nonzero exit
  status.
\<close>

datatype download_outcome = Downloaded | DownloadFailed error bool

datatype YouTube = YouTube (streams: "error + Stream list")

datatype YouTubeVideo = YouTubeVideo (video: YouTube)

record env =
  script_file :: string
  now :: "nat \<Rightarrow> datetime"
  youtube :: "string \<Rightarrow> error + YouTube"
  download :: "Stream \<Rightarrow> Path \<Rightarrow> download_outcome"
  rename_error :: "Path \<Rightarrow> Path \<Rightarrow> error option"
  run :: "string \<Rightarrow> Path set \<Rightarrow> int \<times> Path set"

type_synonym action = "world \<Rightarrow> (error + unit) \<times> world"

definition emit :: "event \<Rightarrow> world \<Rightarrow> world" where
  "emit e w = w\<lparr>trace := trace w @ [e]\<rparr>"

definition path_exists :: "Path \<Rightarrow> world \<Rightarrow> bool \<times> world" where
  "path_exists p w = (p \<in> files w, emit (Stat p) w)"

text \<open>\<open>Path.unlink(missing_ok)\<close>\<close>

definition path_unlink :: "bool \<Rightarrow> Path \<Rightarrow> action" where
  "path_unlink missing_ok p w =
     (let w1 = emit (Unlink p) w
      in if p \<in> files w then (Inr (), w1\<lparr>files := files w - {p}\<rparr>)
         else if missing_ok then (Inr (), w1)
         else (Inl FileNotFoundError, w1))"

text \<open>\<open>Path.rename(target)\<close>: POSIX \<open>rename\<close>, which replaces an existing target.\<close>

definition path_rename :: "env \<Rightarrow> Path \<Rightarrow> Path \<Rightarrow> action" where
  "path_rename E src dst w =
     (let w1 = emit (Rename src dst) w
      in if src \<notin> files w then (Inl FileNotFoundError, w1)
         else (case rename_error E src dst of
                 Some e \<Rightarrow> (Inl e, w1)
               | None \<Rightarrow> (Inr (), w1\<lparr>files := insert dst (files w - {src})\<rparr>)))"

text \<open>
  \<open>stream.download(output_path=str(p.parent), filename=p.name)\<close>: the file written is
  \<open>p\<close>.
\<close>

definition stream_download :: "env \<Rightarrow> Stream \<Rightarrow> Path \<Rightarrow> action" where
  "stream_download E stream p w =
     (let w1 = emit (Download stream p) w
      in case download E stream p of
           Downloaded \<Rightarrow> (Inr (), w1\<lparr>files := insert p (files w)\<rparr>)
         | DownloadFailed e partial \<Rightarrow>
             (Inl e, if partial then w1\<lparr>files := insert p (files w)\<rparr> else w1))"

text \<open>\<open>subprocess.run(shlex.split(command), check=True)\<close>\<close>

definition subprocess_run :: "env \<Rightarrow> string \<Rightarrow> action" where
  "subprocess_run E command w =
     (let w1 = emit (Run command) w;
          (returncode, fs) = run E command (files w)
      in (if returncode = 0 then Inr () else Inl (CalledProcessError returncode),
          w1\<lparr>files := fs\<rparr>))"

definition datetime_now :: "env \<Rightarrow> world \<Rightarrow> datetime \<times> world" where
  "datetime_now E w = (now E (ticks w), w\<lparr>ticks := Suc (ticks w)\<rparr>)"

text \<open>\<open>self.video.streams\<close>\<close>

definition get_streams :: "YouTubeVideo \<Rightarrow> world \<Rightarrow> (error + Stream list) \<times> world" where
  "get_streams self w = (streams (video self), emit FetchStreams w)"

text \<open>Statement sequencing, and \<open>try: body finally: cleanup\<close>.\<close>

definition and_then :: "action \<Rightarrow> action \<Rightarrow> action" where
  "and_then f g w = (case f w of (Inl e, w1) \<Rightarrow> (Inl e, w1) | (Inr _, w1) \<Rightarrow> g w1)"

definition try_finally :: "action \<Rightarrow> action \<Rightarrow> action" where
  "try_finally body cleanup w =
     (let (r, w1) = body w;
          (c, w2) = cleanup w1
      in (case c of Inl e \<Rightarrow> Inl e | Inr _ \<Rightarrow> r, w2))"

section \<open>The class \<open>YouTubeVideo\<close>\<close>

definition new_YouTubeVideo :: "env \<Rightarrow> string \<Rightarrow> world \<Rightarrow> (error + YouTubeVideo) \<times> world" where
  "new_YouTubeVideo E link w =
     (case youtube E link of
        Inl e \<Rightarrow> (Inl e, emit (Init link) w)
      | Inr v \<Rightarrow> (Inr (YouTubeVideo v), emit (Init link) w))"

definition validate_target :: "Path \<Rightarrow> string list \<Rightarrow> action" where
  "validate_target target extensions w =
     (let (parent_exists, w1) = path_exists (path_parent target) w
      in if \<not> parent_exists then (Inl FileNotFoundError, w1)
         else
           (let (target_exists, w2) = path_exists target w1
            in if target_exists then (Inl FileExistsError, w2)
               else if path_suffix target \<notin> set extensions then (Inl TypeError, w2)
               else (Inr (), w2)))"

text \<open>\<open>Path(__file__).parent\<close> and the names of the temporary files.\<close>

definition module_dir :: "env \<Rightarrow> Path" where
  "module_dir E = path_parent (path_of (script_file E))"

definition tmp_video_path :: "env \<Rightarrow> datetime \<Rightarrow> Path" where
  "tmp_video_path E t = truediv (module_dir E) (''tmp_video_'' @ strftime t @ ''.webm'')"

definition tmp_audio_path :: "env \<Rightarrow> datetime \<Rightarrow> Path" where
  "tmp_audio_path E t = truediv (module_dir E) (''tmp_audio_'' @ strftime t @ ''.opus'')"

definition save_video_as :: "env \<Rightarrow> YouTubeVideo \<Rightarrow> Path \<Rightarrow> action" where
  "save_video_as E self target w0 =
     (case validate_target target [''.webm''] (emit (Call SaveVideoAs target) w0) of
        (Inl e, w1) \<Rightarrow> (Inl e, w1)
      | (Inr _, w1) \<Rightarrow>
          (case get_streams self w1 of
             (Inl e, w2) \<Rightarrow> (Inl e, w2)
           | (Inr all_streams, w2) \<Rightarrow>
               (case best_of sort_criteria (filter check_if_dash_stream all_streams) of
                  Inl e \<Rightarrow> (Inl e, w2)
                | Inr best_quality_stream \<Rightarrow>
                    (let (t, w3) = datetime_now E w2;
                         tmp_video_file = tmp_video_path E t
                     in try_finally
                          (and_then (stream_download E best_quality_stream tmp_video_file)
                             (path_rename E tmp_video_file target))
                          (path_unlink True tmp_video_file) w3))))"

text \<open>\<open>ffmpeg -i {tmp_audio_file} -c:a libmp3lame -q:a 0 {target}\<close>\<close>

definition transcode_command :: "Path \<Rightarrow> Path \<Rightarrow> string" where
  "transcode_command tmp_audio_file target =
     ''ffmpeg -i '' @ path_str tmp_audio_file @ '' -c:a libmp3lame -q:a 0 '' @ path_str target"

definition save_audio_as :: "env \<Rightarrow> YouTubeVideo \<Rightarrow> Path \<Rightarrow> action" where
  "save_audio_as E self target w0 =
     (case validate_target target [''.opus'', ''.mp3''] (emit (Call SaveAudioAs target) w0) of
        (Inl e, w1) \<Rightarrow> (Inl e, w1)
      | (Inr _, w1) \<Rightarrow>
          (case get_streams self w1 of
             (Inl e, w2) \<Rightarrow> (Inl e, w2)
           | (Inr all_streams, w2) \<Rightarrow>
               (case best_of bitrate_key (filter audio_filter all_streams) of
                  Inl e \<Rightarrow> (Inl e, w2)
                | Inr best_quality_stream \<Rightarrow>
                    (let (t, w3) = datetime_now E w2;
                         tmp_audio_file = tmp_audio_path E t
                     in try_finally
                          (and_then (stream_download E best_quality_stream tmp_audio_file)
                             (if path_suffix target = ''.mp3''
                              then subprocess_run E (transcode_command tmp_audio_file target)
                              else path_rename E tmp_audio_file target))
                          (path_unlink True tmp_audio_file) w3))))"

text \<open>\<open>ffmpeg -i {tmp_video_file} -i {tmp_audio_file} {target}\<close>\<close>

definition mux_command :: "Path \<Rightarrow> Path \<Rightarrow> Path \<Rightarrow> string" where
  "mux_command tmp_video_file tmp_audio_file target =
     ''ffmpeg -i '' @ path_str tmp_video_file @ '' -i '' @ path_str tmp_audio_file @
     '' '' @ path_str target"

definition save_as :: "env \<Rightarrow> YouTubeVideo \<Rightarrow> Path \<Rightarrow> action" where
  "save_as E self target w0 =
     (case validate_target target [''.webm''] (emit (Call SaveAs target) w0) of
        (Inl e, w1) \<Rightarrow> (Inl e, w1)
      | (Inr _, w1) \<Rightarrow>
          (let (timestamp, w2) = datetime_now E w1;
               tmp_video_file = tmp_video_path E timestamp;
               tmp_audio_file = tmp_audio_path E timestamp
           in try_finally
                (and_then (save_video_as E self tmp_video_file)
                   (and_then (save_audio_as E self tmp_audio_file)
                      (subprocess_run E (mux_command tmp_video_file tmp_audio_file target))))
                (and_then (path_unlink True tmp_video_file) (path_unlink True tmp_audio_file))
                w2))"

section \<open>The command line\<close>

definition script_version :: string where
  "script_version = ''1''"

record Namespace =
  hyperlink :: string
  target :: string
  audio_only :: bool
  version :: bool

definition main :: "env \<Rightarrow> Namespace \<Rightarrow> action" where
  "main E arguments w =
     (if version arguments then (Inr (), emit (Print (''Version: '' @ script_version)) w)
      else
        (case new_YouTubeVideo E (hyperlink arguments) w of
           (Inl e, w1) \<Rightarrow> (Inl e, w1)
         | (Inr youtube_video, w1) \<Rightarrow>
             (let target_path = path_of (target arguments)
              in if audio_only arguments then save_audio_as E youtube_video target_path w1
                 else save_as E youtube_video target_path w1)))"

section \<open>The three public operations, and what each accepts\<close>

definition perform :: "operation \<Rightarrow> env \<Rightarrow> YouTubeVideo \<Rightarrow> Path \<Rightarrow> action" where
  "perform op =
     (case op of
        SaveVideoAs \<Rightarrow> save_video_as
      | SaveAudioAs \<Rightarrow> save_audio_as
      | SaveAs \<Rightarrow> save_as)"

text \<open>
  The accepted extensions as the specification lists them: the video and the combined
  operation take \<open>.webm\<close>, the audio operation \<open>.opus\<close> and \<open>.mp3\<close>.
\<close>

definition accepted_extensions :: "operation \<Rightarrow> string list" where
  "accepted_extensions op =
     (case op of
        SaveVideoAs \<Rightarrow> [''.webm'']
      | SaveAudioAs \<Rightarrow> [''.opus'', ''.mp3'']
      | SaveAs \<Rightarrow> [''.webm''])"

text \<open>The entries of a trace that record a call of a public method.\<close>

fun calls :: "event list \<Rightarrow> (operation \<times> Path) list" where
  "calls [] = []"
| "calls (Call op p # es) = (op, p) # calls es"
| "calls (_ # es) = calls es"

section \<open>A sample video, environment and file system\<close>

definition video_stream :: "int \<Rightarrow> string \<Rightarrow> int \<Rightarrow> Stream" where
  "video_stream i res f =
     \<lparr>itag = i, mime_type = ''video/webm'', is_adaptive = True, video_codec = Some ''vp9'',
      audio_codec = None, resolution = Some res, fps = f, bitrate = 0\<rparr>"

definition audio_stream :: "int \<Rightarrow> int \<Rightarrow> Stream" where
  "audio_stream i b =
     \<lparr>itag = i, mime_type = ''audio/webm'', is_adaptive = True, video_codec = None,
      audio_codec = Some ''opus'', resolution = None, fps = 0, bitrate = b\<rparr>"

definition sample_video_streams :: "Stream list" where
  "sample_video_streams =
     [video_stream 1 ''720p'' 30, video_stream 2 ''1080p'' 30,
      video_stream 3 ''1080p'' 60, video_stream 4 ''480p'' 60]"

definition sample_audio_streams :: "Stream list" where
  "sample_audio_streams = [audio_stream 5 128, audio_stream 6 256, audio_stream 7 96]"

definition sample_streams :: "Stream list" where
  "sample_streams = sample_video_streams @ sample_audio_streams"

definition sample_video :: YouTubeVideo where
  "sample_video = YouTubeVideo (YouTube (Inr sample_streams))"

definition sample_clock :: "nat \<Rightarrow> datetime" where
  "sample_clock n =
     \<lparr>year = 2024, month = 5, day = 17, hour = 9, minute = 30, second = n, microsecond = 0\<rparr>"

definition sample_env :: env where
  "sample_env =
     \<lparr>script_file = ''/opt/ytd/YouTubeDownloader.py'',
      now = sample_clock,
      youtube = (\<lambda>link. Inr (YouTube (Inr sample_streams))),
      download = (\<lambda>stream p. Downloaded),
      rename_error = (\<lambda>src dst. None),
      run = (\<lambda>command fs. (0, fs))\<rparr>"

text \<open>The same environment with an encoder that exits with status 1, touching no file.\<close>

definition failing_env :: env where
  "failing_env = sample_env\<lparr>run := (\<lambda>command fs. (1, fs))\<rparr>"

definition sample_world :: world where
  "sample_world =
     \<lparr>files =
        {Path ''/'' [''opt'', ''ytd''], Path ''/'' [''home''], Path ''/'' [''home'', ''old.txt'']},
      ticks = 0, trace = []\<rparr>"

text \<open>
  A muxer that needs both of its inputs: it exits with status 1 when one is missing and
  otherwise writes its output. A clock whose readings all fall into the same second.
\<close>

definition careful_mux :: "Path \<Rightarrow> Path \<Rightarrow> Path \<Rightarrow> string \<Rightarrow> Path set \<Rightarrow> int \<times> Path set" where
  "careful_mux v a out command fs = (if v \<in> fs \<and> a \<in> fs then (0, insert out fs) else (1, fs))"

definition same_second_clock :: "nat \<Rightarrow> datetime" where
  "same_second_clock n =
     \<lparr>year = 2024, month = 5, day = 17, hour = 9, minute = 30, second = 0, microsecond = n\<rparr>"

definition muxing_env :: env where
  "muxing_env =
     sample_env\<lparr>run :=
       careful_mux (Path ''/'' [''opt'', ''ytd'', ''tmp_video_20240517_093000.webm''])
         (Path ''/'' [''opt'', ''ytd'', ''tmp_audio_20240517_093000.opus''])
         (Path ''/'' [''home'', ''clip.webm''])\<rparr>"

definition same_second_env :: env where
  "same_second_env = muxing_env\<lparr>now := same_second_clock\<rparr>"

text \<open>An encoder that leaves a partial output file behind and exits with status 1.\<close>

definition leaky_env :: env where
  "leaky_env =
     sample_env\<lparr>run := (\<lambda>command fs. (1, insert (Path ''/'' [''home'', ''song.mp3'']) fs))\<rparr>"

text \<open>A video library whose downloads fail, leaving a partial file behind.\<close>

definition broken_env :: env where
  "broken_env = sample_env\<lparr>download := (\<lambda>stream p. DownloadFailed PytubeError True)\<rparr>"

section \<open>Facts about strings and paths\<close>

lemma split_on_absent: "c \<notin> set s \<Longrightarrow> split_on c s = [s]"
  by (induction s) auto

lemma rfind_from_absent: "c \<notin> set s \<Longrightarrow> rfind_from c s i = - 1"
  by (induction s arbitrary: i) auto

lemma rfind_from_final:
  "c \<notin> set post \<Longrightarrow> 0 \<le> i \<Longrightarrow> rfind_from c (pre @ c # post) i = i + int (length pre)"
proof (induction pre arbitrary: i)
  case Nil
  then show ?case by (simp add: rfind_from_absent)
next
  case (Cons x xs)
  from Cons.IH [of "i + 1"] Cons.prems show ?case by (simp add: Let_def)
qed

lemma digit_char_mem: "d < 10 \<Longrightarrow> digit_char d \<in> set ''0123456789''"
  unfolding digit_char_def by (rule nth_mem) simp

lemma digits_chars: "set (digits n) \<subseteq> set ''0123456789''"
proof (induction n rule: digits.induct)
  case (1 n)
  show ?case
  proof (cases "n < 10")
    case True
    then show ?thesis using digit_char_mem [of n] by (subst digits.simps) simp
  next
    case False
    have "digit_char (n mod 10) \<in> set ''0123456789''" by (rule digit_char_mem) simp
    with False 1 show ?thesis by (subst digits.simps) simp
  qed
qed

lemma zero_pad_chars: "set (zero_pad k n) \<subseteq> set ''0123456789''"
  using digits_chars [of n] by (auto simp: zero_pad_def)

lemma strftime_chars: "set (strftime d) \<subseteq> set ''0123456789_''"
proof -
  have sub: "set ''0123456789'' \<subseteq> set ''0123456789_''"
    by (simp add: subset_iff)
  have "set (zero_pad k n) \<subseteq> set ''0123456789_''" for k n
    using zero_pad_chars [of k n] sub by (rule subset_trans)
  moreover have "set ''_'' \<subseteq> set ''0123456789_''"
    by simp
  ultimately show ?thesis
    unfolding strftime_def set_append by (intro Un_least)
qed

lemma strftime_no_dot: "CHR ''.'' \<notin> set (strftime d)"
  using strftime_chars [of d] by auto

lemma strftime_no_slash: "CHR ''/'' \<notin> set (strftime d)"
  using strftime_chars [of d] by auto

lemma path_of_plain:
  assumes "CHR ''/'' \<notin> set s" "s \<noteq> []" "s \<noteq> ''.''"
  shows "path_of s = Path [] [s]"
proof -
  from assms(1,2) have "take 1 s \<noteq> ''/''" by (cases s) auto
  then have "splitroot s = ([], s)" by (simp add: splitroot_def)
  with assms show ?thesis by (simp add: path_of_def split_on_absent)
qed

lemma truediv_plain:
  assumes "CHR ''/'' \<notin> set s" "s \<noteq> []" "s \<noteq> ''.''"
  shows "truediv p s = Path (root p) (parts p @ [s])"
  by (simp add: truediv_def path_of_plain [OF assms])

lemma tmp_video_path_eq:
  "tmp_video_path E t =
     Path (root (module_dir E)) (parts (module_dir E) @ [''tmp_video_'' @ strftime t @ ''.webm''])"
  unfolding tmp_video_path_def using strftime_no_slash [of t] by (intro truediv_plain) auto

lemma tmp_audio_path_eq:
  "tmp_audio_path E t =
     Path (root (module_dir E)) (parts (module_dir E) @ [''tmp_audio_'' @ strftime t @ ''.opus''])"
  unfolding tmp_audio_path_def using strftime_no_slash [of t] by (intro truediv_plain) auto

lemma parent_tmp_video [simp]: "path_parent (tmp_video_path E t) = module_dir E"
  by (simp add: tmp_video_path_eq path_parent_def)

lemma parent_tmp_audio [simp]: "path_parent (tmp_audio_path E t) = module_dir E"
  by (simp add: tmp_audio_path_eq path_parent_def)

lemma suffix_after_stamp:
  assumes "CHR ''.'' \<notin> set ext" "ext \<noteq> []"
  shows "path_suffix (Path r (ps @ [pre @ strftime t @ CHR ''.'' # ext])) = CHR ''.'' # ext"
proof -
  have "rfind CHR ''.'' ((pre @ strftime t) @ CHR ''.'' # ext) = int (length (pre @ strftime t))"
    unfolding rfind_def using rfind_from_final [OF assms(1), of 0 "pre @ strftime t"] by simp
  then have "rfind CHR ''.'' (pre @ strftime t @ CHR ''.'' # ext) = int (length pre + length (strftime t))"
    by simp
  moreover have "strftime t \<noteq> []"
    by (simp add: strftime_def)
  then have "0 < int (length pre) + int (length (strftime t))"
    by (cases "strftime t") simp_all
  ultimately show ?thesis using assms(2)
    by (simp add: path_suffix_def path_name_def Let_def)
qed

lemma suffix_tmp_video [simp]: "path_suffix (tmp_video_path E t) = ''.webm''"
  using suffix_after_stamp [of "''webm''" "root (module_dir E)" "parts (module_dir E)" "''tmp_video_''" t]
  by (simp add: tmp_video_path_eq)

lemma suffix_tmp_audio [simp]: "path_suffix (tmp_audio_path E t) = ''.opus''"
  using suffix_after_stamp [of "''opus''" "root (module_dir E)" "parts (module_dir E)" "''tmp_audio_''" t]
  by (simp add: tmp_audio_path_eq)

lemma tmp_video_neq_audio [simp]: "tmp_video_path E t \<noteq> tmp_audio_path E t'"
  by (simp add: tmp_video_path_eq tmp_audio_path_eq)

lemma tmp_audio_neq_video [simp]: "tmp_audio_path E t \<noteq> tmp_video_path E t'"
  by (simp add: tmp_video_path_eq tmp_audio_path_eq)

lemma tmp_video_path_same:
  "tmp_video_path E t = tmp_video_path E t' \<longleftrightarrow> strftime t = strftime t'"
  by (simp add: tmp_video_path_eq)

lemma tmp_audio_path_same:
  "tmp_audio_path E t = tmp_audio_path E t' \<longleftrightarrow> strftime t = strftime t'"
  by (simp add: tmp_audio_path_eq)

section \<open>Choosing the best stream\<close>







lemma best_of_empty: "best_of key [] = Inl ValueError"
  by (simp add: best_of_def sorted_reverse_def)




lemma sample_best_video:
  "best_of sort_criteria (filter check_if_dash_stream sample_streams) =
     Inr (video_stream 3 ''1080p'' 60)"
  by code_simp

lemma sample_best_audio:
  "best_of bitrate_key (filter audio_filter sample_streams) = Inr (audio_stream 6 256)"
  by code_simp



section \<open>Validation of the target\<close>

lemma validate_target_eq:
  "validate_target t exts w =
     (if path_parent t \<notin> files w
      then (Inl FileNotFoundError, w\<lparr>trace := trace w @ [Stat (path_parent t)]\<rparr>)
      else if t \<in> files w
      then (Inl FileExistsError, w\<lparr>trace := trace w @ [Stat (path_parent t), Stat t]\<rparr>)
      else if path_suffix t \<notin> set exts
      then (Inl TypeError, w\<lparr>trace := trace w @ [Stat (path_parent t), Stat t]\<rparr>)
      else (Inr (), w\<lparr>trace := trace w @ [Stat (path_parent t), Stat t]\<rparr>))"
  by (simp add: validate_target_def path_exists_def emit_def)

text \<open>
  C9. The checks of the validation run in a fixed order: the parent directory, then the
  target itself, then the extension. A target whose parent is missing raises
  \<open>FileNotFoundError\<close> and a target that exists raises \<open>FileExistsError\<close>, whatever the
  extension is; the extension decides only once both earlier checks have passed. The
  trace shows that the later checks are not even reached.
\<close>

theorem validate_target_order:
  "(path_parent t \<notin> files w \<longrightarrow>
      validate_target t exts w =
        (Inl FileNotFoundError, w\<lparr>trace := trace w @ [Stat (path_parent t)]\<rparr>)) \<and>
   (path_parent t \<in> files w \<and> t \<in> files w \<longrightarrow>
      validate_target t exts w =
        (Inl FileExistsError, w\<lparr>trace := trace w @ [Stat (path_parent t), Stat t]\<rparr>)) \<and>
   (path_parent t \<in> files w \<and> t \<notin> files w \<longrightarrow>
      validate_target t exts w =
        (if path_suffix t \<in> set exts then Inr () else Inl TypeError,
         w\<lparr>trace := trace w @ [Stat (path_parent t), Stat t]\<rparr>))"
  by (simp add: validate_target_eq)

theorem validate_target_order_witness:
  "path_suffix (Path ''/'' [''nowhere'', ''clip.mp4'']) \<notin> set [''.webm''] \<and>
   validate_target (Path ''/'' [''nowhere'', ''clip.mp4'']) [''.webm''] sample_world =
     (Inl FileNotFoundError, sample_world\<lparr>trace := [Stat (Path ''/'' [''nowhere''])]\<rparr>) \<and>
   path_suffix (Path ''/'' [''home'', ''old.txt'']) \<notin> set [''.webm''] \<and>
   validate_target (Path ''/'' [''home'', ''old.txt'']) [''.webm''] sample_world =
     (Inl FileExistsError,
      sample_world\<lparr>trace := [Stat (Path ''/'' [''home'']), Stat (Path ''/'' [''home'', ''old.txt''])]\<rparr>) \<and>
   validate_target (Path ''/'' [''home'', ''clip.mp4'']) [''.webm''] sample_world =
     (Inl TypeError,
      sample_world\<lparr>trace := [Stat (Path ''/'' [''home'']), Stat (Path ''/'' [''home'', ''clip.mp4''])]\<rparr>)"
  using validate_target_order [of "Path ''/'' [''nowhere'', ''clip.mp4'']" sample_world "[''.webm'']"]
    validate_target_order [of "Path ''/'' [''home'', ''old.txt'']" sample_world "[''.webm'']"]
    validate_target_order [of "Path ''/'' [''home'', ''clip.mp4'']" sample_world "[''.webm'']"]
  by (simp add: sample_world_def path_parent_def path_suffix_def path_name_def rfind_def Let_def)

lemma perform_invalid:
  assumes "validate_target t (accepted_extensions op) (emit (Call op t) w) = (Inl e, w')"
  shows "perform op E self t w = (Inl e, w')"
  using assms
  by (cases op)
    (simp_all add: perform_def accepted_extensions_def save_video_as_def save_audio_as_def
      save_as_def)

text \<open>
  C2. Each public operation validates its target first. When the parent directory is
  missing it raises \<open>FileNotFoundError\<close>, when the target exists \<open>FileExistsError\<close>, and
  when the extension is not one the operation accepts \<open>TypeError\<close>. In all three cases the
  world it leaves differs from the one it found only by the trace, which gained the call
  and the existence checks: no stream was fetched, nothing was downloaded, no process
  was started, the clock was not read and no file was created, renamed or removed.
\<close>

theorem invalid_target_rejected:
  "(path_parent t \<notin> files w \<longrightarrow>
      perform op E self t w =
        (Inl FileNotFoundError, w\<lparr>trace := trace w @ [Call op t, Stat (path_parent t)]\<rparr>)) \<and>
   (path_parent t \<in> files w \<and> t \<in> files w \<longrightarrow>
      perform op E self t w =
        (Inl FileExistsError,
         w\<lparr>trace := trace w @ [Call op t, Stat (path_parent t), Stat t]\<rparr>)) \<and>
   (path_parent t \<in> files w \<and> t \<notin> files w \<and>
    path_suffix t \<notin> set (accepted_extensions op) \<longrightarrow>
      perform op E self t w =
        (Inl TypeError, w\<lparr>trace := trace w @ [Call op t, Stat (path_parent t), Stat t]\<rparr>))"
  by (auto intro!: perform_invalid simp: validate_target_eq emit_def)

theorem invalid_target_rejected_witness:
  "save_as sample_env sample_video (Path ''/'' [''nowhere'', ''clip.webm'']) sample_world =
     (Inl FileNotFoundError,
      sample_world\<lparr>trace := [Call SaveAs (Path ''/'' [''nowhere'', ''clip.webm'']),
                              Stat (Path ''/'' [''nowhere''])]\<rparr>) \<and>
   save_audio_as sample_env sample_video (Path ''/'' [''home'', ''old.txt'']) sample_world =
     (Inl FileExistsError,
      sample_world\<lparr>trace := [Call SaveAudioAs (Path ''/'' [''home'', ''old.txt'']),
                              Stat (Path ''/'' [''home'']),
                              Stat (Path ''/'' [''home'', ''old.txt''])]\<rparr>) \<and>
   save_video_as sample_env sample_video (Path ''/'' [''home'', ''clip.opus'']) sample_world =
     (Inl TypeError,
      sample_world\<lparr>trace := [Call SaveVideoAs (Path ''/'' [''home'', ''clip.opus'']),
                              Stat (Path ''/'' [''home'']),
                              Stat (Path ''/'' [''home'', ''clip.opus''])]\<rparr>)"
  using invalid_target_rejected [of "Path ''/'' [''nowhere'', ''clip.webm'']" sample_world SaveAs
      sample_env sample_video]
    invalid_target_rejected [of "Path ''/'' [''home'', ''old.txt'']" sample_world SaveAudioAs
      sample_env sample_video]
    invalid_target_rejected [of "Path ''/'' [''home'', ''clip.opus'']" sample_world SaveVideoAs
      sample_env sample_video]
  by (simp add: sample_world_def path_parent_def path_suffix_def path_name_def rfind_def Let_def
      perform_def accepted_extensions_def)

section \<open>The operations, branch by branch\<close>

lemma insert_minus_other: "a \<noteq> b \<Longrightarrow> insert b (F - {a}) = insert b F - {a}"
  by auto

lemma download_then_rename:
  "try_finally (and_then (stream_download E s tmp) (path_rename E tmp t))
     (path_unlink True tmp) w =
   (case download E s tmp of
      DownloadFailed e partial \<Rightarrow>
        (Inl e, w\<lparr>files := files w - {tmp}, trace := trace w @ [Download s tmp, Unlink tmp]\<rparr>)
    | Downloaded \<Rightarrow>
        (case rename_error E tmp t of
           Some e \<Rightarrow>
             (Inl e, w\<lparr>files := files w - {tmp},
                       trace := trace w @ [Download s tmp, Rename tmp t, Unlink tmp]\<rparr>)
         | None \<Rightarrow>
             (Inr (), w\<lparr>files := insert t (files w) - {tmp},
                        trace := trace w @ [Download s tmp, Rename tmp t, Unlink tmp]\<rparr>)))"
  by (auto simp: try_finally_def and_then_def stream_download_def path_rename_def
      path_unlink_def emit_def Let_def insert_minus_other
      split: download_outcome.splits option.splits)

lemma download_then_transcode:
  "try_finally (and_then (stream_download E s tmp) (subprocess_run E command))
     (path_unlink True tmp) w =
   (case download E s tmp of
      DownloadFailed e partial \<Rightarrow>
        (Inl e, w\<lparr>files := files w - {tmp}, trace := trace w @ [Download s tmp, Unlink tmp]\<rparr>)
    | Downloaded \<Rightarrow>
        (if fst (run E command (insert tmp (files w))) = 0 then Inr ()
         else Inl (CalledProcessError (fst (run E command (insert tmp (files w))))),
         w\<lparr>files := snd (run E command (insert tmp (files w))) - {tmp},
           trace := trace w @ [Download s tmp, Run command, Unlink tmp]\<rparr>))"
  by (auto simp: try_finally_def and_then_def stream_download_def subprocess_run_def
      path_unlink_def emit_def Let_def split_beta split: download_outcome.splits)


lemma save_video_as_eq:
  "save_video_as E self t w =
     (if path_parent t \<notin> files w
      then (Inl FileNotFoundError,
            w\<lparr>trace := trace w @ [Call SaveVideoAs t, Stat (path_parent t)]\<rparr>)
      else if t \<in> files w
      then (Inl FileExistsError,
            w\<lparr>trace := trace w @ [Call SaveVideoAs t, Stat (path_parent t), Stat t]\<rparr>)
      else if path_suffix t \<noteq> ''.webm''
      then (Inl TypeError,
            w\<lparr>trace := trace w @ [Call SaveVideoAs t, Stat (path_parent t), Stat t]\<rparr>)
      else
        (case streams (video self) of
           Inl e \<Rightarrow>
             (Inl e, w\<lparr>trace := trace w @
                        [Call SaveVideoAs t, Stat (path_parent t), Stat t, FetchStreams]\<rparr>)
         | Inr ss \<Rightarrow>
             (case best_of sort_criteria (filter check_if_dash_stream ss) of
                Inl e \<Rightarrow>
                  (Inl e, w\<lparr>trace := trace w @
                             [Call SaveVideoAs t, Stat (path_parent t), Stat t, FetchStreams]\<rparr>)
              | Inr s \<Rightarrow>
                  try_finally
                    (and_then (stream_download E s (tmp_video_path E (now E (ticks w))))
                       (path_rename E (tmp_video_path E (now E (ticks w))) t))
                    (path_unlink True (tmp_video_path E (now E (ticks w))))
                    (w\<lparr>trace := trace w @
                         [Call SaveVideoAs t, Stat (path_parent t), Stat t, FetchStreams],
                       ticks := Suc (ticks w)\<rparr>))))"
  by (simp add: save_video_as_def validate_target_eq emit_def get_streams_def datetime_now_def Let_def
      split: sum.splits)

lemma save_audio_as_eq:
  "save_audio_as E self t w =
     (if path_parent t \<notin> files w
      then (Inl FileNotFoundError,
            w\<lparr>trace := trace w @ [Call SaveAudioAs t, Stat (path_parent t)]\<rparr>)
      else if t \<in> files w
      then (Inl FileExistsError,
            w\<lparr>trace := trace w @ [Call SaveAudioAs t, Stat (path_parent t), Stat t]\<rparr>)
      else if path_suffix t \<noteq> ''.opus'' \<and> path_suffix t \<noteq> ''.mp3''
      then (Inl TypeError,
            w\<lparr>trace := trace w @ [Call SaveAudioAs t, Stat (path_parent t), Stat t]\<rparr>)
      else
        (case streams (video self) of
           Inl e \<Rightarrow>
             (Inl e, w\<lparr>trace := trace w @
                        [Call SaveAudioAs t, Stat (path_parent t), Stat t, FetchStreams]\<rparr>)
         | Inr ss \<Rightarrow>
             (case best_of bitrate_key (filter audio_filter ss) of
                Inl e \<Rightarrow>
                  (Inl e, w\<lparr>trace := trace w @
                             [Call SaveAudioAs t, Stat (path_parent t), Stat t, FetchStreams]\<rparr>)
              | Inr s \<Rightarrow>
                  try_finally
                    (and_then (stream_download E s (tmp_audio_path E (now E (ticks w))))
                       (if path_suffix t = ''.mp3''
                        then subprocess_run E
                               (transcode_command (tmp_audio_path E (now E (ticks w))) t)
                        else path_rename E (tmp_audio_path E (now E (ticks w))) t))
                    (path_unlink True (tmp_audio_path E (now E (ticks w))))
                    (w\<lparr>trace := trace w @
                         [Call SaveAudioAs t, Stat (path_parent t), Stat t, FetchStreams],
                       ticks := Suc (ticks w)\<rparr>))))"
  by (simp add: save_audio_as_def validate_target_eq emit_def get_streams_def datetime_now_def Let_def
      split: sum.splits)

lemma calls_append [simp]: "calls (xs @ ys) = calls xs @ calls ys"
  by (induction xs rule: calls.induct) simp_all

lemma save_video_as_selected:
  assumes "path_parent t \<in> files w" "t \<notin> files w" "path_suffix t = ''.webm''"
    and "streams (video self) = Inr ss"
    and "best_of sort_criteria (filter check_if_dash_stream ss) = Inr s"
    and "tmp = tmp_video_path E (now E (ticks w))"
  shows "save_video_as E self t w =
     (case download E s tmp of
        DownloadFailed e partial \<Rightarrow>
          (Inl e,
           w\<lparr>files := files w - {tmp}, ticks := Suc (ticks w),
             trace := trace w @
               [Call SaveVideoAs t, Stat (path_parent t), Stat t, FetchStreams,
                Download s tmp, Unlink tmp]\<rparr>)
      | Downloaded \<Rightarrow>
          (case rename_error E tmp t of
             Some e \<Rightarrow>
               (Inl e,
                w\<lparr>files := files w - {tmp}, ticks := Suc (ticks w),
                  trace := trace w @
                    [Call SaveVideoAs t, Stat (path_parent t), Stat t, FetchStreams,
                     Download s tmp, Rename tmp t, Unlink tmp]\<rparr>)
           | None \<Rightarrow>
               (Inr (),
                w\<lparr>files := insert t (files w) - {tmp}, ticks := Suc (ticks w),
                  trace := trace w @
                    [Call SaveVideoAs t, Stat (path_parent t), Stat t, FetchStreams,
                     Download s tmp, Rename tmp t, Unlink tmp]\<rparr>)))"
  using assms
  by (simp add: save_video_as_eq download_then_rename
      split: download_outcome.splits option.splits)

lemma save_audio_as_selected:
  assumes "path_parent t \<in> files w" "t \<notin> files w"
    and "streams (video self) = Inr ss"
    and "best_of bitrate_key (filter audio_filter ss) = Inr s"
    and "tmp = tmp_audio_path E (now E (ticks w))"
  shows "path_suffix t = ''.opus'' \<Longrightarrow> save_audio_as E self t w =
     (case download E s tmp of
        DownloadFailed e partial \<Rightarrow>
          (Inl e,
           w\<lparr>files := files w - {tmp}, ticks := Suc (ticks w),
             trace := trace w @
               [Call SaveAudioAs t, Stat (path_parent t), Stat t, FetchStreams,
                Download s tmp, Unlink tmp]\<rparr>)
      | Downloaded \<Rightarrow>
          (case rename_error E tmp t of
             Some e \<Rightarrow>
               (Inl e,
                w\<lparr>files := files w - {tmp}, ticks := Suc (ticks w),
                  trace := trace w @
                    [Call SaveAudioAs t, Stat (path_parent t), Stat t, FetchStreams,
                     Download s tmp, Rename tmp t, Unlink tmp]\<rparr>)
           | None \<Rightarrow>
               (Inr (),
                w\<lparr>files := insert t (files w) - {tmp}, ticks := Suc (ticks w),
                  trace := trace w @
                    [Call SaveAudioAs t, Stat (path_parent t), Stat t, FetchStreams,
                     Download s tmp, Rename tmp t, Unlink tmp]\<rparr>)))"
    and "path_suffix t = ''.mp3'' \<Longrightarrow> save_audio_as E self t w =
     (case download E s tmp of
        DownloadFailed e partial \<Rightarrow>
          (Inl e,
           w\<lparr>files := files w - {tmp}, ticks := Suc (ticks w),
             trace := trace w @
               [Call SaveAudioAs t, Stat (path_parent t), Stat t, FetchStreams,
                Download s tmp, Unlink tmp]\<rparr>)
      | Downloaded \<Rightarrow>
          (if fst (run E (transcode_command tmp t) (insert tmp (files w))) = 0 then Inr ()
           else Inl (CalledProcessError
                  (fst (run E (transcode_command tmp t) (insert tmp (files w))))),
           w\<lparr>files := snd (run E (transcode_command tmp t) (insert tmp (files w))) - {tmp},
             ticks := Suc (ticks w),
             trace := trace w @
               [Call SaveAudioAs t, Stat (path_parent t), Stat t, FetchStreams,
                Download s tmp, Run (transcode_command tmp t), Unlink tmp]\<rparr>))"
  using assms
  by (simp_all add: save_audio_as_eq download_then_rename download_then_transcode
      split: download_outcome.splits option.splits)

text \<open>
  C3. When the target passes the validation, the library returns its streams and none of
  them passes the filter of the operation, \<open>save_video_as\<close> and \<open>save_audio_as\<close> raise the
  \<open>ValueError\<close> of the failed unpacking. Nothing was downloaded: the trace ends with the
  fetch of the stream list, the clock was not read and the file system is unchanged.
\<close>

theorem no_stream_found:
  "path_parent t \<in> files w \<and> t \<notin> files w \<and> streams (video self) = Inr ss \<longrightarrow>
     (path_suffix t = ''.webm'' \<and> filter check_if_dash_stream ss = [] \<longrightarrow>
        save_video_as E self t w =
          (Inl ValueError,
           w\<lparr>trace := trace w @
              [Call SaveVideoAs t, Stat (path_parent t), Stat t, FetchStreams]\<rparr>)) \<and>
     ((path_suffix t = ''.opus'' \<or> path_suffix t = ''.mp3'') \<and> filter audio_filter ss = [] \<longrightarrow>
        save_audio_as E self t w =
          (Inl ValueError,
           w\<lparr>trace := trace w @
              [Call SaveAudioAs t, Stat (path_parent t), Stat t, FetchStreams]\<rparr>))"
  by (auto simp: save_video_as_eq save_audio_as_eq best_of_empty)

theorem no_stream_found_witness:
  "filter check_if_dash_stream sample_audio_streams = [] \<and>
   save_video_as sample_env (YouTubeVideo (YouTube (Inr sample_audio_streams)))
     (Path ''/'' [''home'', ''clip.webm'']) sample_world =
     (Inl ValueError,
      sample_world\<lparr>trace :=
        [Call SaveVideoAs (Path ''/'' [''home'', ''clip.webm'']), Stat (Path ''/'' [''home'']),
         Stat (Path ''/'' [''home'', ''clip.webm'']), FetchStreams]\<rparr>) \<and>
   filter audio_filter sample_video_streams = [] \<and>
   save_audio_as sample_env (YouTubeVideo (YouTube (Inr sample_video_streams)))
     (Path ''/'' [''home'', ''song.mp3'']) sample_world =
     (Inl ValueError,
      sample_world\<lparr>trace :=
        [Call SaveAudioAs (Path ''/'' [''home'', ''song.mp3'']), Stat (Path ''/'' [''home'']),
         Stat (Path ''/'' [''home'', ''song.mp3'']), FetchStreams]\<rparr>)"
proof -
  have video: "filter check_if_dash_stream sample_audio_streams = []"
    by (simp add: sample_audio_streams_def audio_stream_def check_if_dash_stream_def)
  have audio: "filter audio_filter sample_video_streams = []"
    by (simp add: sample_video_streams_def video_stream_def audio_filter_def)
  have paths: "path_parent (Path ''/'' [''home'', ''clip.webm'']) = Path ''/'' [''home'']"
    "path_suffix (Path ''/'' [''home'', ''clip.webm'']) = ''.webm''"
    "path_parent (Path ''/'' [''home'', ''song.mp3'']) = Path ''/'' [''home'']"
    "path_suffix (Path ''/'' [''home'', ''song.mp3'']) = ''.mp3''"
    by (simp_all add: path_parent_def path_suffix_def path_name_def rfind_def Let_def)
  show ?thesis
    using video audio
      no_stream_found [of "Path ''/'' [''home'', ''clip.webm'']" sample_world
        "YouTubeVideo (YouTube (Inr sample_audio_streams))" sample_audio_streams sample_env]
      no_stream_found [of "Path ''/'' [''home'', ''song.mp3'']" sample_world
        "YouTubeVideo (YouTube (Inr sample_video_streams))" sample_video_streams sample_env]
    by (simp add: paths) (simp add: sample_world_def)
qed

section \<open>The audio operation\<close>

lemma sample_module_dir: "module_dir sample_env = Path ''/'' [''opt'', ''ytd'']"
  by code_simp

lemma sample_stamps:
  "strftime (sample_clock 0) = ''20240517_093000''"
  "strftime (sample_clock (Suc 0)) = ''20240517_093001''"
  "strftime (sample_clock (Suc (Suc 0))) = ''20240517_093002''"
  by code_simp+

lemma sample_tmp_paths:
  "tmp_video_path sample_env (sample_clock 0) =
     Path ''/'' [''opt'', ''ytd'', ''tmp_video_20240517_093000.webm'']"
  "tmp_audio_path sample_env (sample_clock 0) =
     Path ''/'' [''opt'', ''ytd'', ''tmp_audio_20240517_093000.opus'']"
  "tmp_video_path sample_env (sample_clock (Suc 0)) =
     Path ''/'' [''opt'', ''ytd'', ''tmp_video_20240517_093001.webm'']"
  "tmp_audio_path sample_env (sample_clock (Suc (Suc 0))) =
     Path ''/'' [''opt'', ''ytd'', ''tmp_audio_20240517_093002.opus'']"
  by (simp_all add: tmp_video_path_eq tmp_audio_path_eq sample_module_dir sample_stamps)



section \<open>The combined operation\<close>

lemma cleanup_both:
  "and_then (path_unlink True a) (path_unlink True b) w =
     (Inr (), w\<lparr>files := files w - {a} - {b}, trace := trace w @ [Unlink a, Unlink b]\<rparr>)"
  by (auto simp: and_then_def path_unlink_def emit_def Let_def)

lemma try_finally_cleanup:
  "try_finally body (and_then (path_unlink True a) (path_unlink True b)) w =
     (fst (body w),
      (snd (body w))\<lparr>files := files (snd (body w)) - {a} - {b},
                     trace := trace (snd (body w)) @ [Unlink a, Unlink b]\<rparr>)"
  by (simp add: try_finally_def cleanup_both split_beta)

lemma save_as_eq:
  "save_as E self t w =
     (if path_parent t \<notin> files w
      then (Inl FileNotFoundError,
            w\<lparr>trace := trace w @ [Call SaveAs t, Stat (path_parent t)]\<rparr>)
      else if t \<in> files w
      then (Inl FileExistsError,
            w\<lparr>trace := trace w @ [Call SaveAs t, Stat (path_parent t), Stat t]\<rparr>)
      else if path_suffix t \<noteq> ''.webm''
      then (Inl TypeError,
            w\<lparr>trace := trace w @ [Call SaveAs t, Stat (path_parent t), Stat t]\<rparr>)
      else
        try_finally
          (and_then (save_video_as E self (tmp_video_path E (now E (ticks w))))
             (and_then (save_audio_as E self (tmp_audio_path E (now E (ticks w))))
                (subprocess_run E
                   (mux_command (tmp_video_path E (now E (ticks w)))
                      (tmp_audio_path E (now E (ticks w))) t))))
          (and_then (path_unlink True (tmp_video_path E (now E (ticks w))))
             (path_unlink True (tmp_audio_path E (now E (ticks w)))))
          (w\<lparr>trace := trace w @ [Call SaveAs t, Stat (path_parent t), Stat t],
             ticks := Suc (ticks w)\<rparr>))"
  by (simp add: save_as_def validate_target_eq emit_def datetime_now_def Let_def)

lemma subprocess_run_eq:
  "subprocess_run E command w =
     (if fst (run E command (files w)) = 0 then Inr ()
      else Inl (CalledProcessError (fst (run E command (files w)))),
      w\<lparr>files := snd (run E command (files w)), trace := trace w @ [Run command]\<rparr>)"
  by (simp add: subprocess_run_def emit_def split_beta)

text \<open>Calls recorded by the video and the audio operation, on every branch.\<close>

lemma calls_try_rename:
  "calls (trace (snd (try_finally (and_then (stream_download E s tmp) (path_rename E tmp t))
     (path_unlink True tmp) w))) = calls (trace w)"
  by (simp add: download_then_rename split: download_outcome.splits option.splits)

lemma calls_try_transcode:
  "calls (trace (snd (try_finally (and_then (stream_download E s tmp) (subprocess_run E c))
     (path_unlink True tmp) w))) = calls (trace w)"
  by (simp add: download_then_transcode split: download_outcome.splits)

lemma calls_save_video_as:
  "calls (trace (snd (save_video_as E self t w))) = calls (trace w) @ [(SaveVideoAs, t)]"
  by (simp add: save_video_as_eq calls_try_rename split: sum.splits)

lemma calls_save_audio_as:
  "calls (trace (snd (save_audio_as E self t w))) = calls (trace w) @ [(SaveAudioAs, t)]"
  by (simp add: save_audio_as_eq calls_try_rename calls_try_transcode split: sum.splits)

text \<open>Files left by the video and the audio operation, on every branch.\<close>

lemma files_save_video_as:
  "files (snd (save_video_as E self t w)) \<subseteq> insert t (files w)"
  "fst (save_video_as E self t w) \<noteq> Inr () \<Longrightarrow> files (snd (save_video_as E self t w)) \<subseteq> files w"
  by (auto simp: save_video_as_eq download_then_rename
      split: sum.splits if_splits download_outcome.splits option.splits)

lemma files_save_audio_as:
  assumes "path_suffix t \<noteq> ''.mp3''"
  shows "files (snd (save_audio_as E self t w)) \<subseteq> insert t (files w)"
    "fst (save_audio_as E self t w) \<noteq> Inr () \<Longrightarrow> files (snd (save_audio_as E self t w)) \<subseteq> files w"
  using assms
  by (auto simp: save_audio_as_eq download_then_rename
      split: sum.splits if_splits download_outcome.splits option.splits)

lemma module_dir_not_tmp [simp]:
  "module_dir E \<noteq> tmp_video_path E x" "module_dir E \<noteq> tmp_audio_path E x"
proof -
  have "parts (tmp_video_path E x) \<noteq> parts (module_dir E)"
    "parts (tmp_audio_path E x) \<noteq> parts (module_dir E)"
    by (simp_all add: tmp_video_path_eq tmp_audio_path_eq)
  then show "module_dir E \<noteq> tmp_video_path E x" "module_dir E \<noteq> tmp_audio_path E x"
    by auto
qed

lemma save_as_success_path:
  assumes valid: "path_parent t \<in> files w" "t \<notin> files w" "path_suffix t = ''.webm''"
    and dir: "module_dir E \<in> files w"
    and tv: "tv = tmp_video_path E (now E (ticks w))"
    and ta: "ta = tmp_audio_path E (now E (ticks w))"
    and tv': "tv' = tmp_video_path E (now E (Suc (ticks w)))"
    and ta': "ta' = tmp_audio_path E (now E (Suc (Suc (ticks w))))"
    and fresh: "tv \<notin> files w" "ta \<notin> files w"
    and ss: "streams (video self) = Inr ss"
    and sv: "best_of sort_criteria (filter check_if_dash_stream ss) = Inr sv"
    and sa: "best_of bitrate_key (filter audio_filter ss) = Inr sa"
    and dl: "download E sv tv' = Downloaded" "download E sa ta' = Downloaded"
    and rn: "rename_error E tv' tv = None" "rename_error E ta' ta = None"
    and F: "F = insert ta (insert tv (files w) - {tv'}) - {ta'}"
  shows "save_as E self t w =
     (if fst (run E (mux_command tv ta t) F) = 0 then Inr ()
      else Inl (CalledProcessError (fst (run E (mux_command tv ta t) F))),
      w\<lparr>files := snd (run E (mux_command tv ta t) F) - {tv} - {ta},
        ticks := Suc (Suc (Suc (ticks w))),
        trace := trace w @
          [Call SaveAs t, Stat (path_parent t), Stat t,
           Call SaveVideoAs tv, Stat (module_dir E), Stat tv, FetchStreams,
           Download sv tv', Rename tv' tv, Unlink tv',
           Call SaveAudioAs ta, Stat (module_dir E), Stat ta, FetchStreams,
           Download sa ta', Rename ta' ta, Unlink ta',
           Run (mux_command tv ta t), Unlink tv, Unlink ta]\<rparr>)"
proof -
  define w2 where "w2 = w\<lparr>trace := trace w @ [Call SaveAs t, Stat (path_parent t), Stat t],
    ticks := Suc (ticks w)\<rparr>"
  define w3 where "w3 = w2\<lparr>files := insert tv (files w2) - {tv'}, ticks := Suc (ticks w2),
    trace := trace w2 @ [Call SaveVideoAs tv, Stat (path_parent tv), Stat tv, FetchStreams,
      Download sv tv', Rename tv' tv, Unlink tv']\<rparr>"
  define w4 where "w4 = w3\<lparr>files := insert ta (files w3) - {ta'}, ticks := Suc (ticks w3),
    trace := trace w3 @ [Call SaveAudioAs ta, Stat (path_parent ta), Stat ta, FetchStreams,
      Download sa ta', Rename ta' ta, Unlink ta']\<rparr>"
  have video: "save_video_as E self tv w2 = (Inr (), w3)"
    using save_video_as_selected [of tv w2 self ss sv tv' E] dir fresh ss sv dl rn
    by (simp add: w2_def w3_def tv tv')
  have "module_dir E \<in> files w3" "ta \<notin> files w3"
    using dir fresh by (simp_all add: w3_def w2_def tv ta tv')
  then have audio: "save_audio_as E self ta w3 = (Inr (), w4)"
    using save_audio_as_selected(1) [of ta w3 self ss sa ta' E] ss sa dl rn
    by (simp add: w2_def w3_def w4_def ta ta')
  have F4: "files w4 = F"
    by (simp add: F w4_def w3_def w2_def)
  have body: "and_then (save_video_as E self tv)
      (and_then (save_audio_as E self ta) (subprocess_run E (mux_command tv ta t))) w2 =
     (if fst (run E (mux_command tv ta t) F) = 0 then Inr ()
      else Inl (CalledProcessError (fst (run E (mux_command tv ta t) F))),
      w4\<lparr>files := snd (run E (mux_command tv ta t) F),
         trace := trace w4 @ [Run (mux_command tv ta t)]\<rparr>)"
    by (simp add: and_then_def video audio subprocess_run_eq F4)
  have "save_as E self t w =
     try_finally
       (and_then (save_video_as E self tv)
          (and_then (save_audio_as E self ta) (subprocess_run E (mux_command tv ta t))))
       (and_then (path_unlink True tv) (path_unlink True ta)) w2"
    using valid by (simp add: save_as_eq w2_def tv ta)
  moreover have "path_parent tv = module_dir E" "path_parent ta = module_dir E"
    by (simp_all add: tv ta)
  ultimately show ?thesis
    by (simp add: try_finally_cleanup body) (simp add: w4_def w3_def w2_def)
qed



lemma same_second_stamp: "strftime (same_second_clock n) = ''20240517_093000''"
  using sample_stamps(1) by (simp add: strftime_def same_second_clock_def sample_clock_def)

lemma sample_world_facts:
  "Path ''/'' [''home''] \<in> files sample_world"
  "Path ''/'' [''opt'', ''ytd''] \<in> files sample_world"
  "Path ''/'' [''home'', ''clip.webm''] \<notin> files sample_world"
  "Path ''/'' [''opt'', ''ytd'', ''tmp_video_20240517_093000.webm''] \<notin> files sample_world"
  "Path ''/'' [''opt'', ''ytd'', ''tmp_audio_20240517_093000.opus''] \<notin> files sample_world"
  "ticks sample_world = 0" "trace sample_world = []"
  by (simp_all add: sample_world_def)

lemma clip_path:
  "path_parent (Path ''/'' [''home'', ''clip.webm'']) = Path ''/'' [''home'']"
  "path_suffix (Path ''/'' [''home'', ''clip.webm'']) = ''.webm''"
  by (simp_all add: path_parent_def path_suffix_def path_name_def rfind_def Let_def)


section \<open>Two clock readings in the same second\<close>

lemma inner_video_same_second:
  assumes dir: "module_dir E \<in> files w"
    and tv: "tv = tmp_video_path E (now E (ticks w))"
    and same: "strftime (now E (Suc (ticks w))) = strftime (now E (ticks w))"
    and fresh: "tv \<notin> files w"
    and sel: "streams (video self) = Inr ss"
      "best_of sort_criteria (filter check_if_dash_stream ss) = Inr sv"
    and dl: "download E sv tv = Downloaded"
    and rn: "rename_error E tv tv = None"
  shows "save_video_as E self tv
       (w\<lparr>trace := trace w @ pre, ticks := Suc (ticks w)\<rparr>) =
       (Inr (),
        w\<lparr>ticks := Suc (Suc (ticks w)),
          trace := trace w @ pre @
            [Call SaveVideoAs tv, Stat (module_dir E), Stat tv, FetchStreams,
             Download sv tv, Rename tv tv, Unlink tv]\<rparr>)"
proof -
  have tv': "tv = tmp_video_path E (now E (Suc (ticks w)))"
    by (simp add: tv tmp_video_path_same same)
  have parent: "path_parent tv = module_dir E" and suffix: "path_suffix tv = ''.webm''"
    by (simp_all add: tv)
  have unchanged: "insert tv (files w) - {tv} = files w"
    using fresh by auto
  have "save_video_as E self tv (w\<lparr>trace := trace w @ pre, ticks := Suc (ticks w)\<rparr>) =
     (Inr (),
      w\<lparr>trace := trace w @ pre, ticks := Suc (ticks w)\<rparr>
        \<lparr>files := insert tv (files (w\<lparr>trace := trace w @ pre, ticks := Suc (ticks w)\<rparr>)) - {tv},
         ticks := Suc (ticks (w\<lparr>trace := trace w @ pre, ticks := Suc (ticks w)\<rparr>)),
         trace := trace (w\<lparr>trace := trace w @ pre, ticks := Suc (ticks w)\<rparr>) @
           [Call SaveVideoAs tv, Stat (path_parent tv), Stat tv, FetchStreams,
            Download sv tv, Rename tv tv, Unlink tv]\<rparr>)"
    by (subst save_video_as_selected [where ss = ss and s = sv and tmp = tv])
      (simp_all add: parent suffix dir fresh sel dl rn tv' [symmetric])
  then show ?thesis
    by (simp add: unchanged parent)
qed

text \<open>
  C7. \<open>save_as\<close> calls the public \<open>save_video_as\<close> and \<open>save_audio_as\<close> on its own
  temporary paths, and each of them reads the clock again to name its own temporary file.
  When these readings format to the same stamp as the one of \<open>save_as\<close>, the inner
  temporary path is the path the inner call was asked to write: the download goes to
  that path, the rename is a rename of the file onto itself, and the cleanup of the
  inner call then unlinks it. Both inner calls return normally, and the muxer is started
  on a file system that holds neither of its two inputs.
\<close>

theorem same_second_self_rename:
  "path_parent t \<in> files w \<and> t \<notin> files w \<and> path_suffix t = ''.webm'' \<and>
   module_dir E \<in> files w \<and>
   tv = tmp_video_path E (now E (ticks w)) \<and> ta = tmp_audio_path E (now E (ticks w)) \<and>
   strftime (now E (Suc (ticks w))) = strftime (now E (ticks w)) \<and>
   strftime (now E (Suc (Suc (ticks w)))) = strftime (now E (ticks w)) \<and>
   tv \<notin> files w \<and> ta \<notin> files w \<and>
   streams (video self) = Inr ss \<and>
   best_of sort_criteria (filter check_if_dash_stream ss) = Inr sv \<and>
   best_of bitrate_key (filter audio_filter ss) = Inr sa \<and>
   download E sv tv = Downloaded \<and> download E sa ta = Downloaded \<and>
   rename_error E tv tv = None \<and> rename_error E ta ta = None \<and>
   run E (mux_command tv ta t) (files w) = (rc, fs) \<longrightarrow>
     tmp_video_path E (now E (Suc (ticks w))) = tv \<and>
     tmp_audio_path E (now E (Suc (Suc (ticks w)))) = ta \<and>
     save_video_as E self tv
       (w\<lparr>trace := trace w @ [Call SaveAs t, Stat (path_parent t), Stat t],
          ticks := Suc (ticks w)\<rparr>) =
       (Inr (),
        w\<lparr>ticks := Suc (Suc (ticks w)),
          trace := trace w @
            [Call SaveAs t, Stat (path_parent t), Stat t,
             Call SaveVideoAs tv, Stat (module_dir E), Stat tv, FetchStreams,
             Download sv tv, Rename tv tv, Unlink tv]\<rparr>) \<and>
     save_as E self t w =
       (if rc = 0 then Inr () else Inl (CalledProcessError rc),
        w\<lparr>files := fs - {tv} - {ta},
          ticks := Suc (Suc (Suc (ticks w))),
          trace := trace w @
            [Call SaveAs t, Stat (path_parent t), Stat t,
             Call SaveVideoAs tv, Stat (module_dir E), Stat tv, FetchStreams,
             Download sv tv, Rename tv tv, Unlink tv,
             Call SaveAudioAs ta, Stat (module_dir E), Stat ta, FetchStreams,
             Download sa ta, Rename ta ta, Unlink ta,
             Run (mux_command tv ta t), Unlink tv, Unlink ta]\<rparr>)"
proof (intro impI conjI; (elim conjE)?)
  assume valid: "path_parent t \<in> files w" "t \<notin> files w" "path_suffix t = ''.webm''"
    and dir: "module_dir E \<in> files w"
    and tv: "tv = tmp_video_path E (now E (ticks w))"
    and ta: "ta = tmp_audio_path E (now E (ticks w))"
    and same: "strftime (now E (Suc (ticks w))) = strftime (now E (ticks w))"
      "strftime (now E (Suc (Suc (ticks w)))) = strftime (now E (ticks w))"
    and fresh: "tv \<notin> files w" "ta \<notin> files w"
    and sel: "streams (video self) = Inr ss"
      "best_of sort_criteria (filter check_if_dash_stream ss) = Inr sv"
      "best_of bitrate_key (filter audio_filter ss) = Inr sa"
    and dl: "download E sv tv = Downloaded" "download E sa ta = Downloaded"
    and rn: "rename_error E tv tv = None" "rename_error E ta ta = None"
    and r: "run E (mux_command tv ta t) (files w) = (rc, fs)"
  have tv': "tv = tmp_video_path E (now E (Suc (ticks w)))"
    by (simp add: tv tmp_video_path_same same)
  have ta': "ta = tmp_audio_path E (now E (Suc (Suc (ticks w))))"
    by (simp add: ta tmp_audio_path_same same)
  show "tmp_video_path E (now E (Suc (ticks w))) = tv"
    by (rule tv' [symmetric])
  show "tmp_audio_path E (now E (Suc (Suc (ticks w)))) = ta"
    by (rule ta' [symmetric])
  show "save_video_as E self tv
       (w\<lparr>trace := trace w @ [Call SaveAs t, Stat (path_parent t), Stat t],
          ticks := Suc (ticks w)\<rparr>) =
       (Inr (),
        w\<lparr>ticks := Suc (Suc (ticks w)),
          trace := trace w @
            [Call SaveAs t, Stat (path_parent t), Stat t,
             Call SaveVideoAs tv, Stat (module_dir E), Stat tv, FetchStreams,
             Download sv tv, Rename tv tv, Unlink tv]\<rparr>)"
    using inner_video_same_second [OF dir tv same(1) fresh(1) sel(1,2) dl(1) rn(1),
        of "[Call SaveAs t, Stat (path_parent t), Stat t]"]
    by simp
  have F: "files w = insert ta (insert tv (files w) - {tv}) - {ta}"
    using fresh by auto
  note whole = save_as_success_path [OF valid dir tv ta tv' ta' fresh sel dl rn F]
  show "save_as E self t w =
       (if rc = 0 then Inr () else Inl (CalledProcessError rc),
        w\<lparr>files := fs - {tv} - {ta},
          ticks := Suc (Suc (Suc (ticks w))),
          trace := trace w @
            [Call SaveAs t, Stat (path_parent t), Stat t,
             Call SaveVideoAs tv, Stat (module_dir E), Stat tv, FetchStreams,
             Download sv tv, Rename tv tv, Unlink tv,
             Call SaveAudioAs ta, Stat (module_dir E), Stat ta, FetchStreams,
             Download sa ta, Rename ta ta, Unlink ta,
             Run (mux_command tv ta t), Unlink tv, Unlink ta]\<rparr>)"
    unfolding whole r by simp
qed

theorem same_second_self_rename_witness:
  "save_as same_second_env sample_video (Path ''/'' [''home'', ''clip.webm'']) sample_world =
     (Inl (CalledProcessError 1),
      sample_world
        \<lparr>ticks := 3,
         trace :=
           [Call SaveAs (Path ''/'' [''home'', ''clip.webm'']),
            Stat (Path ''/'' [''home'']), Stat (Path ''/'' [''home'', ''clip.webm'']),
            Call SaveVideoAs (Path ''/'' [''opt'', ''ytd'', ''tmp_video_20240517_093000.webm'']),
            Stat (Path ''/'' [''opt'', ''ytd'']),
            Stat (Path ''/'' [''opt'', ''ytd'', ''tmp_video_20240517_093000.webm'']),
            FetchStreams,
            Download (video_stream 3 ''1080p'' 60)
              (Path ''/'' [''opt'', ''ytd'', ''tmp_video_20240517_093000.webm'']),
            Rename (Path ''/'' [''opt'', ''ytd'', ''tmp_video_20240517_093000.webm''])
              (Path ''/'' [''opt'', ''ytd'', ''tmp_video_20240517_093000.webm'']),
            Unlink (Path ''/'' [''opt'', ''ytd'', ''tmp_video_20240517_093000.webm'']),
            Call SaveAudioAs (Path ''/'' [''opt'', ''ytd'', ''tmp_audio_20240517_093000.opus'']),
            Stat (Path ''/'' [''opt'', ''ytd'']),
            Stat (Path ''/'' [''opt'', ''ytd'', ''tmp_audio_20240517_093000.opus'']),
            FetchStreams,
            Download (audio_stream 6 256)
              (Path ''/'' [''opt'', ''ytd'', ''tmp_audio_20240517_093000.opus'']),
            Rename (Path ''/'' [''opt'', ''ytd'', ''tmp_audio_20240517_093000.opus''])
              (Path ''/'' [''opt'', ''ytd'', ''tmp_audio_20240517_093000.opus'']),
            Unlink (Path ''/'' [''opt'', ''ytd'', ''tmp_audio_20240517_093000.opus'']),
            Run ''ffmpeg -i /opt/ytd/tmp_video_20240517_093000.webm -i /opt/ytd/tmp_audio_20240517_093000.opus /home/clip.webm'',
            Unlink (Path ''/'' [''opt'', ''ytd'', ''tmp_video_20240517_093000.webm'']),
            Unlink (Path ''/'' [''opt'', ''ytd'', ''tmp_audio_20240517_093000.opus''])]\<rparr>)"
proof -
  let ?clip = "Path ''/'' [''home'', ''clip.webm'']"
  let ?tv = "Path ''/'' [''opt'', ''ytd'', ''tmp_video_20240517_093000.webm'']"
  let ?ta = "Path ''/'' [''opt'', ''ytd'', ''tmp_audio_20240517_093000.opus'']"
  have env: "module_dir same_second_env = Path ''/'' [''opt'', ''ytd'']"
    "now same_second_env = same_second_clock"
    "download same_second_env s p = Downloaded" "rename_error same_second_env p q = None"
    "run same_second_env c = careful_mux ?tv ?ta ?clip c" for s p q c
    using sample_module_dir
    by (simp_all add: same_second_env_def muxing_env_def sample_env_def module_dir_def)
  have tmp: "tmp_video_path same_second_env (same_second_clock n) = ?tv"
    "tmp_audio_path same_second_env (same_second_clock n) = ?ta" for n
    by (simp_all add: tmp_video_path_eq tmp_audio_path_eq env same_second_stamp)
  have run: "run same_second_env (mux_command ?tv ?ta ?clip) (files sample_world) =
      (1, files sample_world)"
    by (simp add: env careful_mux_def sample_world_facts)
  have video: "streams (video sample_video) = Inr sample_streams"
    by (simp add: sample_video_def)
  have "save_as same_second_env sample_video ?clip sample_world =
     (Inl (CalledProcessError 1),
      sample_world
        \<lparr>files := files sample_world - {?tv} - {?ta},
         ticks := Suc (Suc (Suc 0)),
         trace :=
           [Call SaveAs ?clip, Stat (Path ''/'' [''home'']), Stat ?clip,
            Call SaveVideoAs ?tv, Stat (Path ''/'' [''opt'', ''ytd'']), Stat ?tv, FetchStreams,
            Download (video_stream 3 ''1080p'' 60) ?tv, Rename ?tv ?tv, Unlink ?tv,
            Call SaveAudioAs ?ta, Stat (Path ''/'' [''opt'', ''ytd'']), Stat ?ta, FetchStreams,
            Download (audio_stream 6 256) ?ta, Rename ?ta ?ta, Unlink ?ta,
            Run (mux_command ?tv ?ta ?clip), Unlink ?tv, Unlink ?ta]\<rparr>)"
    using same_second_self_rename [where t = ?clip and w = sample_world
        and E = same_second_env and tv = ?tv and ta = ?ta and self = sample_video
        and ss = sample_streams and sv = "video_stream 3 ''1080p'' 60"
        and sa = "audio_stream 6 256" and rc = 1 and fs = "files sample_world"] run
    by (simp add: clip_path sample_world_facts env tmp same_second_stamp video
        sample_best_video sample_best_audio)
  moreover have "files sample_world - {?tv} - {?ta} = files sample_world"
    by (auto simp: sample_world_def)
  ultimately show ?thesis
    by (simp add: mux_command_def path_str_def numeral_3_eq_3)
qed

lemma calls_save_as:
  "\<exists>rest. calls (trace (snd (save_as E self t w))) = calls (trace w) @ (SaveAs, t) # rest \<and>
     set rest \<subseteq> {(SaveVideoAs, tmp_video_path E (now E (ticks w))),
                 (SaveAudioAs, tmp_audio_path E (now E (ticks w)))}"
proof (cases "path_parent t \<in> files w \<and> t \<notin> files w \<and> path_suffix t = ''.webm''")
  case False
  then have "calls (trace (snd (save_as E self t w))) = calls (trace w) @ [(SaveAs, t)]"
    by (auto simp: save_as_eq)
  then show ?thesis
    by simp
next
  case True
  define tv where "tv = tmp_video_path E (now E (ticks w))"
  define ta where "ta = tmp_audio_path E (now E (ticks w))"
  define w2 where "w2 = w\<lparr>trace := trace w @ [Call SaveAs t, Stat (path_parent t), Stat t],
    ticks := Suc (ticks w)\<rparr>"
  define body where "body = and_then (save_video_as E self tv)
    (and_then (save_audio_as E self ta) (subprocess_run E (mux_command tv ta t)))"
  obtain r1 w3 where video: "save_video_as E self tv w2 = (r1, w3)"
    by (cases "save_video_as E self tv w2")
  obtain r2 w4 where audio: "save_audio_as E self ta w3 = (r2, w4)"
    by (cases "save_audio_as E self ta w3")
  have c2: "calls (trace w2) = calls (trace w) @ [(SaveAs, t)]"
    by (simp add: w2_def)
  have c3: "calls (trace w3) = calls (trace w2) @ [(SaveVideoAs, tv)]"
    using calls_save_video_as [of E self tv w2] by (simp add: video)
  have c4: "calls (trace w4) = calls (trace w3) @ [(SaveAudioAs, ta)]"
    using calls_save_audio_as [of E self ta w3] by (simp add: audio)
  have "calls (trace (snd (body w2))) = calls (trace w) @ [(SaveAs, t), (SaveVideoAs, tv)] \<or>
    calls (trace (snd (body w2))) =
      calls (trace w) @ [(SaveAs, t), (SaveVideoAs, tv), (SaveAudioAs, ta)]"
    by (cases r1; cases r2)
      (simp_all add: body_def and_then_def video audio subprocess_run_eq c2 c3 c4)
  moreover have "save_as E self t w =
    try_finally body (and_then (path_unlink True tv) (path_unlink True ta)) w2"
    using True by (simp add: save_as_eq body_def tv_def ta_def w2_def)
  ultimately have "calls (trace (snd (save_as E self t w))) =
      calls (trace w) @ (SaveAs, t) # [(SaveVideoAs, tv)] \<or>
    calls (trace (snd (save_as E self t w))) =
      calls (trace w) @ (SaveAs, t) # [(SaveVideoAs, tv), (SaveAudioAs, ta)]"
    by (simp add: try_finally_cleanup)
  then show ?thesis
    unfolding tv_def ta_def by (elim disjE) (rule exI, rule conjI, assumption, simp)+
qed

section \<open>Cleanup after a failure\<close>

lemma unlink_missing:
  "p \<notin> files w \<Longrightarrow> path_unlink True p w = (Inr (), w\<lparr>trace := trace w @ [Unlink p]\<rparr>)"
  by (simp add: path_unlink_def emit_def)

lemma video_failure_files:
  assumes "path_parent t \<in> files w" "t \<notin> files w" "path_suffix t = ''.webm''"
    and "streams (video self) = Inr ss"
    and "best_of sort_criteria (filter check_if_dash_stream ss) = Inr s"
    and "tmp = tmp_video_path E (now E (ticks w))"
    and "save_video_as E self t w = (Inl e, w')"
  shows "files w' = files w - {tmp}"
  using assms(7) unfolding save_video_as_selected [OF assms(1-6)]
  by (auto split: download_outcome.splits option.splits)

lemma audio_failure_files:
  assumes "path_parent t \<in> files w" "t \<notin> files w"
    and "path_suffix t = ''.opus'' \<or> path_suffix t = ''.mp3''"
    and "streams (video self) = Inr ss"
    and "best_of bitrate_key (filter audio_filter ss) = Inr s"
    and "tmp = tmp_audio_path E (now E (ticks w))"
    and "save_audio_as E self t w = (Inl e, w')"
  shows "tmp \<notin> files w'"
    and "path_suffix t = ''.opus'' \<Longrightarrow> files w' = files w - {tmp}"
    and "t \<in> files w' \<Longrightarrow>
      path_suffix t = ''.mp3'' \<and> download E s tmp = Downloaded \<and>
      e = CalledProcessError (fst (run E (transcode_command tmp t) (insert tmp (files w)))) \<and>
      t \<in> snd (run E (transcode_command tmp t) (insert tmp (files w)))"
proof -
  consider (opus) "path_suffix t = ''.opus''" | (mp3) "path_suffix t = ''.mp3''"
    using assms(3) by blast
  then have "tmp \<notin> files w' \<and> (path_suffix t = ''.opus'' \<longrightarrow> files w' = files w - {tmp}) \<and>
    (t \<in> files w' \<longrightarrow>
      path_suffix t = ''.mp3'' \<and> download E s tmp = Downloaded \<and>
      e = CalledProcessError (fst (run E (transcode_command tmp t) (insert tmp (files w)))) \<and>
      t \<in> snd (run E (transcode_command tmp t) (insert tmp (files w))))"
  proof cases
    case opus
    from assms(7) assms(2) show ?thesis
      unfolding save_audio_as_selected(1) [OF assms(1,2,4,5,6) opus]
      by (auto split: download_outcome.splits option.splits)
  next
    case mp3
    from assms(7) assms(2) show ?thesis
      unfolding save_audio_as_selected(2) [OF assms(1,2,4,5,6) mp3]
      by (auto simp: mp3 split: download_outcome.splits if_splits)
  qed
  then show "tmp \<notin> files w'"
    and "path_suffix t = ''.opus'' \<Longrightarrow> files w' = files w - {tmp}"
    and "t \<in> files w' \<Longrightarrow>
      path_suffix t = ''.mp3'' \<and> download E s tmp = Downloaded \<and>
      e = CalledProcessError (fst (run E (transcode_command tmp t) (insert tmp (files w)))) \<and>
      t \<in> snd (run E (transcode_command tmp t) (insert tmp (files w)))"
    by simp_all
qed

lemma combined_failure_files:
  assumes valid: "path_parent t \<in> files w" "t \<notin> files w" "path_suffix t = ''.webm''"
    and tv: "tv = tmp_video_path E (now E (ticks w))"
    and ta: "ta = tmp_audio_path E (now E (ticks w))"
    and fails: "save_as E self t w = (Inl e, w')"
  shows "tv \<notin> files w'" and "ta \<notin> files w'"
    and "t \<in> files w' \<Longrightarrow>
      \<exists>F. t \<notin> F \<and> t \<in> snd (run E (mux_command tv ta t) F) \<and>
        e = CalledProcessError (fst (run E (mux_command tv ta t) F))"
proof -
  define w2 where "w2 = w\<lparr>trace := trace w @ [Call SaveAs t, Stat (path_parent t), Stat t],
    ticks := Suc (ticks w)\<rparr>"
  define body where "body = and_then (save_video_as E self tv)
    (and_then (save_audio_as E self ta) (subprocess_run E (mux_command tv ta t)))"
  have "save_as E self t w =
    try_finally body (and_then (path_unlink True tv) (path_unlink True ta)) w2"
    using valid by (simp add: save_as_eq body_def tv ta w2_def)
  with fails have e: "fst (body w2) = Inl e"
    and w': "files w' = files (snd (body w2)) - {tv} - {ta}"
    by (auto simp: try_finally_cleanup)
  from w' show "tv \<notin> files w'" and "ta \<notin> files w'"
    by auto
  obtain r1 w3 where video: "save_video_as E self tv w2 = (r1, w3)"
    by (cases "save_video_as E self tv w2")
  obtain r2 w4 where audio: "save_audio_as E self ta w3 = (r2, w4)"
    by (cases "save_audio_as E self ta w3")
  have suffix: "path_suffix ta \<noteq> ''.mp3''"
    by (simp add: ta)
  have same: "files w2 = files w"
    by (simp add: w2_def)
  have f3: "files w3 \<subseteq> insert tv (files w)" "r1 \<noteq> Inr () \<Longrightarrow> files w3 \<subseteq> files w"
    using files_save_video_as [of E self tv w2] unfolding video same by simp_all
  have f4: "files w4 \<subseteq> insert ta (files w3)" "r2 \<noteq> Inr () \<Longrightarrow> files w4 \<subseteq> files w3"
    using files_save_audio_as [OF suffix, of E self w3] unfolding audio by simp_all
  assume t: "t \<in> files w'"
  with w' have t': "t \<in> files (snd (body w2))" "t \<noteq> tv" "t \<noteq> ta"
    by auto
  show "\<exists>F. t \<notin> F \<and> t \<in> snd (run E (mux_command tv ta t) F) \<and>
      e = CalledProcessError (fst (run E (mux_command tv ta t) F))"
  proof (cases r1)
    case (Inl e1)
    then have "files (snd (body w2)) \<subseteq> files w"
      using f3(2) by (simp add: body_def and_then_def video)
    with t'(1) valid(2) show ?thesis
      by auto
  next
    case r1: (Inr u1)
    show ?thesis
    proof (cases r2)
      case (Inl e2)
      then have "files (snd (body w2)) \<subseteq> insert tv (files w)"
        using f3(1) f4(2) by (auto simp: body_def and_then_def video audio r1)
      with t' valid(2) show ?thesis
        by auto
    next
      case r2: (Inr u2)
      have "t \<notin> files w4"
        using f3(1) f4(1) t'(2,3) valid(2) by auto
      moreover have "body w2 = subprocess_run E (mux_command tv ta t) w4"
        by (simp add: body_def and_then_def video audio r1 r2)
      ultimately show ?thesis
        using t'(1) e by (auto simp: subprocess_run_eq split: if_splits)
    qed
  qed
qed

lemma song_path:
  "path_parent (Path ''/'' [''home'', ''song.mp3'']) = Path ''/'' [''home'']"
  "path_suffix (Path ''/'' [''home'', ''song.mp3'']) = ''.mp3''"
  by (simp_all add: path_parent_def path_suffix_def path_name_def rfind_def Let_def)

text \<open>
  The target of a failed call can exist. With an encoder that writes its output file
  and then exits with status 1, \<open>save_audio_as\<close> to an \<open>.mp3\<close> target raises
  \<open>CalledProcessError\<close>, and the target, absent before the call, exists after it.
\<close>

theorem failed_transcode_leaves_target:
  "Path ''/'' [''home'', ''song.mp3''] \<notin> files sample_world \<and>
   save_audio_as leaky_env sample_video (Path ''/'' [''home'', ''song.mp3'']) sample_world =
     (Inl (CalledProcessError 1),
      sample_world
        \<lparr>files := insert (Path ''/'' [''home'', ''song.mp3'']) (files sample_world),
         ticks := 1,
         trace :=
           [Call SaveAudioAs (Path ''/'' [''home'', ''song.mp3'']),
            Stat (Path ''/'' [''home'']), Stat (Path ''/'' [''home'', ''song.mp3'']),
            FetchStreams,
            Download (audio_stream 6 256)
              (Path ''/'' [''opt'', ''ytd'', ''tmp_audio_20240517_093000.opus'']),
            Run ''ffmpeg -i /opt/ytd/tmp_audio_20240517_093000.opus -c:a libmp3lame -q:a 0 /home/song.mp3'',
            Unlink (Path ''/'' [''opt'', ''ytd'', ''tmp_audio_20240517_093000.opus''])]\<rparr>) \<and>
   Path ''/'' [''home'', ''song.mp3''] \<in>
     files (snd (save_audio_as leaky_env sample_video (Path ''/'' [''home'', ''song.mp3''])
       sample_world))"
proof -
  let ?mp3 = "Path ''/'' [''home'', ''song.mp3'']"
  let ?tmp = "Path ''/'' [''opt'', ''ytd'', ''tmp_audio_20240517_093000.opus'']"
  have world: "Path ''/'' [''home''] \<in> files sample_world" "?mp3 \<notin> files sample_world"
    "?tmp \<notin> files sample_world" "ticks sample_world = 0" "trace sample_world = []"
    by (simp_all add: sample_world_def)
  have env: "now leaky_env = sample_clock" "download leaky_env s p = Downloaded"
    "run leaky_env c F = (1, insert ?mp3 F)"
    "tmp_audio_path leaky_env = tmp_audio_path sample_env" for s p c F
    by (simp_all add: leaky_env_def sample_env_def fun_eq_iff tmp_audio_path_def module_dir_def)
  have video: "streams (video sample_video) = Inr sample_streams"
    by (simp add: sample_video_def)
  have "save_audio_as leaky_env sample_video ?mp3 sample_world =
     (Inl (CalledProcessError 1),
      sample_world
        \<lparr>files := insert ?mp3 (insert ?tmp (files sample_world)) - {?tmp},
         ticks := Suc 0,
         trace :=
           [Call SaveAudioAs ?mp3, Stat (Path ''/'' [''home'']), Stat ?mp3, FetchStreams,
            Download (audio_stream 6 256) ?tmp, Run (transcode_command ?tmp ?mp3),
            Unlink ?tmp]\<rparr>)"
    by (subst save_audio_as_selected(2) [where ss = sample_streams
          and s = "audio_stream 6 256" and tmp = ?tmp])
      (simp_all add: song_path world env video sample_best_audio sample_tmp_paths)
  moreover have "insert ?mp3 (insert ?tmp (files sample_world)) - {?tmp} =
      insert ?mp3 (files sample_world)"
    using world by auto
  ultimately show ?thesis
    using world by (simp add: transcode_command_def path_str_def)
qed

text \<open>
  C1, as amended. When an operation fails after it has entered its \<open>try\<close> block, the
  temporary file it names does not exist when the call returns: after a failure of
  \<open>save_video_as\<close> or \<open>save_audio_as\<close> the temporary file of that call is gone, after a
  failure of \<open>save_as\<close> both of its temporary files are gone. The operation itself has
  not created the target: after a failed download or rename the target does not exist,
  and it exists after a failure only if the failure is the nonzero exit status of the
  external process and that process wrote the target itself, which the code does not
  remove. Unlinking with \<open>missing_ok\<close> a path that does not exist is not an error.
\<close>

theorem cleanup_after_failure:
  "(path_parent t \<in> files w \<and> t \<notin> files w \<and> path_suffix t = ''.webm'' \<and>
    streams (video self) = Inr ss \<and>
    best_of sort_criteria (filter check_if_dash_stream ss) = Inr s \<and>
    tmp = tmp_video_path E (now E (ticks w)) \<and>
    save_video_as E self t w = (Inl e, w') \<longrightarrow>
      tmp \<notin> files w' \<and> t \<notin> files w') \<and>
   (path_parent t \<in> files w \<and> t \<notin> files w \<and>
    (path_suffix t = ''.opus'' \<or> path_suffix t = ''.mp3'') \<and>
    streams (video self) = Inr ss \<and>
    best_of bitrate_key (filter audio_filter ss) = Inr s \<and>
    tmp = tmp_audio_path E (now E (ticks w)) \<and>
    save_audio_as E self t w = (Inl e, w') \<longrightarrow>
      tmp \<notin> files w' \<and>
      (path_suffix t = ''.opus'' \<longrightarrow> t \<notin> files w') \<and>
      (t \<in> files w' \<longrightarrow>
         path_suffix t = ''.mp3'' \<and>
         e = CalledProcessError (fst (run E (transcode_command tmp t) (insert tmp (files w)))) \<and>
         t \<in> snd (run E (transcode_command tmp t) (insert tmp (files w))))) \<and>
   (path_parent t \<in> files w \<and> t \<notin> files w \<and> path_suffix t = ''.webm'' \<and>
    tv = tmp_video_path E (now E (ticks w)) \<and> ta = tmp_audio_path E (now E (ticks w)) \<and>
    save_as E self t w = (Inl e, w') \<longrightarrow>
      tv \<notin> files w' \<and> ta \<notin> files w' \<and>
      (t \<in> files w' \<longrightarrow>
         (\<exists>F. t \<notin> F \<and> t \<in> snd (run E (mux_command tv ta t) F) \<and>
            e = CalledProcessError (fst (run E (mux_command tv ta t) F))))) \<and>
   (p \<notin> files w \<longrightarrow>
      path_unlink True p w = (Inr (), w\<lparr>trace := trace w @ [Unlink p]\<rparr>))"
proof (intro conjI impI; (elim conjE)?)
  assume a: "path_parent t \<in> files w" "t \<notin> files w" "path_suffix t = ''.webm''"
    "streams (video self) = Inr ss"
    "best_of sort_criteria (filter check_if_dash_stream ss) = Inr s"
    "tmp = tmp_video_path E (now E (ticks w))"
    "save_video_as E self t w = (Inl e, w')"
  from video_failure_files [OF a] a(2) show "tmp \<notin> files w'" "t \<notin> files w'"
    by auto
next
  assume a: "path_parent t \<in> files w" "t \<notin> files w"
    "path_suffix t = ''.opus'' \<or> path_suffix t = ''.mp3''"
    "streams (video self) = Inr ss"
    "best_of bitrate_key (filter audio_filter ss) = Inr s"
    "tmp = tmp_audio_path E (now E (ticks w))"
    "save_audio_as E self t w = (Inl e, w')"
  show "tmp \<notin> files w'"
    by (rule audio_failure_files(1) [OF a])
  {
    assume "path_suffix t = ''.opus''"
    from audio_failure_files(2) [OF a this] a(2) show "t \<notin> files w'"
      by auto
  }
  {
    assume "t \<in> files w'"
    from audio_failure_files(3) [OF a this]
    show "path_suffix t = ''.mp3''"
      "e = CalledProcessError (fst (run E (transcode_command tmp t) (insert tmp (files w))))"
      "t \<in> snd (run E (transcode_command tmp t) (insert tmp (files w)))"
      by simp_all
  }
next
  assume a: "path_parent t \<in> files w" "t \<notin> files w" "path_suffix t = ''.webm''"
    "tv = tmp_video_path E (now E (ticks w))" "ta = tmp_audio_path E (now E (ticks w))"
    "save_as E self t w = (Inl e, w')"
  show "tv \<notin> files w'" "ta \<notin> files w'"
    by (rule combined_failure_files(1,2) [OF a])+
  {
    assume "t \<in> files w'"
    then show "\<exists>F. t \<notin> F \<and> t \<in> snd (run E (mux_command tv ta t) F) \<and>
            e = CalledProcessError (fst (run E (mux_command tv ta t) F))"
      by (rule combined_failure_files(3) [OF a])
  }
next
  assume "p \<notin> files w"
  then show "path_unlink True p w = (Inr (), w\<lparr>trace := trace w @ [Unlink p]\<rparr>)"
    by (rule unlink_missing)
qed

theorem cleanup_after_failure_witness:
  "fst (save_video_as broken_env sample_video (Path ''/'' [''home'', ''clip.webm'']) sample_world) =
     Inl PytubeError \<and>
   Path ''/'' [''opt'', ''ytd'', ''tmp_video_20240517_093000.webm''] \<notin>
     files (snd (save_video_as broken_env sample_video (Path ''/'' [''home'', ''clip.webm''])
       sample_world)) \<and>
   Path ''/'' [''home'', ''clip.webm''] \<notin>
     files (snd (save_video_as broken_env sample_video (Path ''/'' [''home'', ''clip.webm''])
       sample_world)) \<and>
   fst (save_audio_as failing_env sample_video (Path ''/'' [''home'', ''song.mp3'']) sample_world) =
     Inl (CalledProcessError 1) \<and>
   Path ''/'' [''opt'', ''ytd'', ''tmp_audio_20240517_093000.opus''] \<notin>
     files (snd (save_audio_as failing_env sample_video (Path ''/'' [''home'', ''song.mp3''])
       sample_world)) \<and>
   fst (save_as broken_env sample_video (Path ''/'' [''home'', ''clip.webm'']) sample_world) =
     Inl PytubeError \<and>
   Path ''/'' [''opt'', ''ytd'', ''tmp_video_20240517_093000.webm''] \<notin>
     files (snd (save_as broken_env sample_video (Path ''/'' [''home'', ''clip.webm''])
       sample_world)) \<and>
   Path ''/'' [''opt'', ''ytd'', ''tmp_audio_20240517_093000.opus''] \<notin>
     files (snd (save_as broken_env sample_video (Path ''/'' [''home'', ''clip.webm''])
       sample_world)) \<and>
   path_unlink True (Path ''/'' [''opt'', ''ytd'', ''tmp_video_20240517_093000.webm''])
     sample_world =
     (Inr (),
      sample_world\<lparr>trace :=
        [Unlink (Path ''/'' [''opt'', ''ytd'', ''tmp_video_20240517_093000.webm''])]\<rparr>)"
proof -
  let ?clip = "Path ''/'' [''home'', ''clip.webm'']"
  let ?mp3 = "Path ''/'' [''home'', ''song.mp3'']"
  let ?tv = "Path ''/'' [''opt'', ''ytd'', ''tmp_video_20240517_093000.webm'']"
  let ?tv' = "Path ''/'' [''opt'', ''ytd'', ''tmp_video_20240517_093001.webm'']"
  let ?ta = "Path ''/'' [''opt'', ''ytd'', ''tmp_audio_20240517_093000.opus'']"
  let ?sv = "video_stream 3 ''1080p'' 60"
  let ?sa = "audio_stream 6 256"
  have world: "?mp3 \<notin> files sample_world"
    by (simp add: sample_world_def)
  have tvp: "path_parent ?tv = Path ''/'' [''opt'', ''ytd'']" "path_suffix ?tv = ''.webm''"
    by (simp_all add: path_parent_def path_suffix_def path_name_def rfind_def Let_def)
  have env: "now broken_env = sample_clock" "now failing_env = sample_clock"
    "download broken_env s p = DownloadFailed PytubeError True"
    "download failing_env s p = Downloaded" "run failing_env c F = (1, F)"
    "tmp_video_path broken_env = tmp_video_path sample_env"
    "tmp_audio_path broken_env = tmp_audio_path sample_env"
    "tmp_audio_path failing_env = tmp_audio_path sample_env"
    "module_dir broken_env = Path ''/'' [''opt'', ''ytd'']" for s p c F
    using sample_module_dir
    by (simp_all add: broken_env_def failing_env_def sample_env_def fun_eq_iff
        tmp_video_path_def tmp_audio_path_def module_dir_def)
  have video: "streams (video sample_video) = Inr sample_streams"
    by (simp add: sample_video_def)
  have v: "fst (save_video_as broken_env sample_video ?clip sample_world) = Inl PytubeError"
    by (subst save_video_as_selected [where ss = sample_streams and s = ?sv and tmp = ?tv])
      (simp_all add: clip_path sample_world_facts env video sample_best_video sample_tmp_paths)
  have a: "fst (save_audio_as failing_env sample_video ?mp3 sample_world) =
      Inl (CalledProcessError 1)"
    by (subst save_audio_as_selected(2) [where ss = sample_streams and s = ?sa and tmp = ?ta])
      (simp_all add: song_path sample_world_facts world env video sample_best_audio
        sample_tmp_paths)
  have inner: "fst (save_video_as broken_env sample_video ?tv
      (sample_world\<lparr>trace := [Call SaveAs ?clip, Stat (Path ''/'' [''home'']), Stat ?clip],
         ticks := Suc 0\<rparr>)) = Inl PytubeError"
    by (subst save_video_as_selected [where ss = sample_streams and s = ?sv and tmp = ?tv'])
      (simp_all add: tvp sample_world_facts env video sample_best_video sample_tmp_paths)
  have c: "fst (save_as broken_env sample_video ?clip sample_world) = Inl PytubeError"
    using inner
    by (simp add: save_as_eq clip_path sample_world_facts env sample_tmp_paths
        try_finally_cleanup and_then_def split_beta split: sum.splits prod.splits)
  have "?tv \<notin> files (snd (save_video_as broken_env sample_video ?clip sample_world)) \<and>
    ?clip \<notin> files (snd (save_video_as broken_env sample_video ?clip sample_world))"
    by (rule cleanup_after_failure [where t = ?clip and w = sample_world
          and self = sample_video and ss = sample_streams and s = ?sv and tmp = ?tv
          and E = broken_env and e = PytubeError, THEN conjunct1, THEN mp])
      (simp add: clip_path sample_world_facts env video sample_best_video sample_tmp_paths
        v [symmetric])
  moreover have "?ta \<notin> files (snd (save_audio_as failing_env sample_video ?mp3 sample_world))"
    by (rule cleanup_after_failure [where t = ?mp3 and w = sample_world
          and self = sample_video and ss = sample_streams and s = ?sa and tmp = ?ta
          and E = failing_env and e = "CalledProcessError 1",
          THEN conjunct2, THEN conjunct1, THEN mp, THEN conjunct1])
      (simp add: song_path sample_world_facts world env video sample_best_audio
        sample_tmp_paths a [symmetric])
  moreover have "?tv \<notin> files (snd (save_as broken_env sample_video ?clip sample_world)) \<and>
    ?ta \<notin> files (snd (save_as broken_env sample_video ?clip sample_world))"
    using cleanup_after_failure [where t = ?clip and w = sample_world
          and self = sample_video and tv = ?tv and ta = ?ta
          and E = broken_env and e = PytubeError
          and w' = "snd (save_as broken_env sample_video ?clip sample_world)",
          THEN conjunct2, THEN conjunct2, THEN conjunct1]
    by (simp add: clip_path sample_world_facts env sample_tmp_paths c [symmetric])
  moreover have "path_unlink True ?tv sample_world =
     (Inr (), sample_world\<lparr>trace := [Unlink ?tv]\<rparr>)"
    using cleanup_after_failure [where p = ?tv and w = sample_world,
        THEN conjunct2, THEN conjunct2, THEN conjunct2]
    by (simp add: sample_world_facts)
  ultimately show ?thesis
    using v a c by simp
qed

section \<open>The command line: version and dispatch\<close>

text \<open>
  C8. With \<open>--version\<close> set, \<open>main\<close> prints the version and returns at once: whatever the
  other arguments are, the only action is the \<open>print\<close>, the file system is unchanged, the
  clock is not read, and neither the video library nor a process is called.
\<close>

theorem main_version:
  "version arguments \<Longrightarrow>
     main E arguments w = (Inr (), w\<lparr>trace := trace w @ [Print ''Version: 1'']\<rparr>)"
  by (simp add: main_def emit_def script_version_def)

theorem main_version_witness:
  "main sample_env
     \<lparr>hyperlink = ''https://youtu.be/abc'', target = ''/nowhere/clip.xyz'', audio_only = True,
      version = True\<rparr> sample_world =
     (Inr (), sample_world\<lparr>trace := [Print ''Version: 1'']\<rparr>)"
  using main_version [of "\<lparr>hyperlink = ''https://youtu.be/abc'', target = ''/nowhere/clip.xyz'',
      audio_only = True, version = True\<rparr>" sample_env sample_world]
  by (simp add: sample_world_def)

text \<open>
  C10. Without \<open>--version\<close>, and once the video object is built, \<open>main\<close> is
  \<open>save_audio_as\<close> on the user's target when \<open>--audio_only\<close> is set and \<open>save_as\<close> on
  the user's target otherwise; there is no third case. The calls recorded in the trace
  show that \<open>main\<close> never enters \<open>save_video_as\<close> itself: with \<open>--audio_only\<close> the only
  call is the one of \<open>save_audio_as\<close>, and otherwise every call after the one of
  \<open>save_as\<close> is made by \<open>save_as\<close> on one of its two temporary paths.
\<close>

theorem main_dispatch:
  "\<not> version arguments \<longrightarrow>
     (\<forall>e. youtube E (hyperlink arguments) = Inl e \<longrightarrow>
        main E arguments w = (Inl e, w\<lparr>trace := trace w @ [Init (hyperlink arguments)]\<rparr>)) \<and>
     (\<forall>v. youtube E (hyperlink arguments) = Inr v \<longrightarrow>
        (audio_only arguments \<longrightarrow>
           main E arguments w =
             save_audio_as E (YouTubeVideo v) (path_of (target arguments))
               (w\<lparr>trace := trace w @ [Init (hyperlink arguments)]\<rparr>) \<and>
           calls (trace (snd (main E arguments w))) =
             calls (trace w) @ [(SaveAudioAs, path_of (target arguments))]) \<and>
        (\<not> audio_only arguments \<longrightarrow>
           main E arguments w =
             save_as E (YouTubeVideo v) (path_of (target arguments))
               (w\<lparr>trace := trace w @ [Init (hyperlink arguments)]\<rparr>) \<and>
           (\<exists>rest.
              calls (trace (snd (main E arguments w))) =
                calls (trace w) @ (SaveAs, path_of (target arguments)) # rest \<and>
              set rest \<subseteq> {(SaveVideoAs, tmp_video_path E (now E (ticks w))),
                          (SaveAudioAs, tmp_audio_path E (now E (ticks w)))})))"
proof (intro impI allI conjI)
  fix e
  assume "\<not> version arguments" "youtube E (hyperlink arguments) = Inl e"
  then show "main E arguments w = (Inl e, w\<lparr>trace := trace w @ [Init (hyperlink arguments)]\<rparr>)"
    by (simp add: main_def new_YouTubeVideo_def emit_def)
next
  fix v
  assume a: "\<not> version arguments" "youtube E (hyperlink arguments) = Inr v" "audio_only arguments"
  then show m: "main E arguments w =
             save_audio_as E (YouTubeVideo v) (path_of (target arguments))
               (w\<lparr>trace := trace w @ [Init (hyperlink arguments)]\<rparr>)"
    by (simp add: main_def new_YouTubeVideo_def emit_def)
  show "calls (trace (snd (main E arguments w))) =
             calls (trace w) @ [(SaveAudioAs, path_of (target arguments))]"
    unfolding m by (simp add: calls_save_audio_as)
next
  fix v
  assume a: "\<not> version arguments" "youtube E (hyperlink arguments) = Inr v"
    "\<not> audio_only arguments"
  then show m: "main E arguments w =
             save_as E (YouTubeVideo v) (path_of (target arguments))
               (w\<lparr>trace := trace w @ [Init (hyperlink arguments)]\<rparr>)"
    by (simp add: main_def new_YouTubeVideo_def emit_def)
  show "\<exists>rest.
              calls (trace (snd (main E arguments w))) =
                calls (trace w) @ (SaveAs, path_of (target arguments)) # rest \<and>
              set rest \<subseteq> {(SaveVideoAs, tmp_video_path E (now E (ticks w))),
                          (SaveAudioAs, tmp_audio_path E (now E (ticks w)))}"
    unfolding m
    using calls_save_as [of E "YouTubeVideo v" "path_of (target arguments)"
        "w\<lparr>trace := trace w @ [Init (hyperlink arguments)]\<rparr>"]
    by simp
qed

lemma sample_targets:
  "path_of ''/home/song.opus'' = Path ''/'' [''home'', ''song.opus'']"
  "path_of ''/home/clip.webm'' = Path ''/'' [''home'', ''clip.webm'']"
  by (simp_all add: path_of_def splitroot_def)

theorem main_dispatch_witness:
  "main sample_env
     \<lparr>hyperlink = ''https://youtu.be/abc'', target = ''/home/song.opus'', audio_only = True,
      version = False\<rparr> sample_world =
     save_audio_as sample_env sample_video (Path ''/'' [''home'', ''song.opus''])
       (sample_world\<lparr>trace := [Init ''https://youtu.be/abc'']\<rparr>) \<and>
   calls (trace (snd (main sample_env
     \<lparr>hyperlink = ''https://youtu.be/abc'', target = ''/home/song.opus'', audio_only = True,
      version = False\<rparr> sample_world))) =
     [(SaveAudioAs, Path ''/'' [''home'', ''song.opus''])] \<and>
   main sample_env
     \<lparr>hyperlink = ''https://youtu.be/abc'', target = ''/home/clip.webm'', audio_only = False,
      version = False\<rparr> sample_world =
     save_as sample_env sample_video (Path ''/'' [''home'', ''clip.webm''])
       (sample_world\<lparr>trace := [Init ''https://youtu.be/abc'']\<rparr>) \<and>
   (\<exists>rest.
      calls (trace (snd (main sample_env
        \<lparr>hyperlink = ''https://youtu.be/abc'', target = ''/home/clip.webm'', audio_only = False,
         version = False\<rparr> sample_world))) =
        (SaveAs, Path ''/'' [''home'', ''clip.webm'']) # rest \<and>
      set rest \<subseteq>
        {(SaveVideoAs, Path ''/'' [''opt'', ''ytd'', ''tmp_video_20240517_093000.webm'']),
         (SaveAudioAs, Path ''/'' [''opt'', ''ytd'', ''tmp_audio_20240517_093000.opus''])})"
proof -
  let ?audio = "\<lparr>hyperlink = ''https://youtu.be/abc'', target = ''/home/song.opus'',
    audio_only = True, version = False\<rparr>"
  let ?both = "\<lparr>hyperlink = ''https://youtu.be/abc'', target = ''/home/clip.webm'',
    audio_only = False, version = False\<rparr>"
  have args: "\<not> version ?audio" "audio_only ?audio" "\<not> version ?both" "\<not> audio_only ?both"
    by simp_all
  have yt: "youtube sample_env (hyperlink ?audio) = Inr (YouTube (Inr sample_streams))"
    "youtube sample_env (hyperlink ?both) = Inr (YouTube (Inr sample_streams))"
    by (simp_all add: sample_env_def)
  have env: "now sample_env = sample_clock"
    by (simp add: sample_env_def)
  have world: "ticks sample_world = 0" "trace sample_world = []"
    by (simp_all add: sample_world_def)
  note audio = main_dispatch [of ?audio sample_env sample_world, THEN mp, OF args(1),
      THEN conjunct2, THEN spec, THEN mp, OF yt(1), THEN conjunct1, THEN mp, OF args(2)]
  note both = main_dispatch [of ?both sample_env sample_world, THEN mp, OF args(3),
      THEN conjunct2, THEN spec, THEN mp, OF yt(2), THEN conjunct2, THEN mp, OF args(4)]
  from audio [THEN conjunct1] audio [THEN conjunct2] both [THEN conjunct1] both [THEN conjunct2]
  show ?thesis
    by (simp add: env world sample_targets sample_tmp_paths sample_video_def)
qed

end
